theory Spec2Isabelle
  imports Complex_Main "HOL-Library.Word"
begin

unbundle bit_operations_syntax

section \<open>Two colour-animated triangles: the program of triangle/main.go\<close>

text \<open>
  The program opens a window, compiles two shaders, links them, uploads two triangles and
  draws both every frame with a colour that oscillates in time.  Everything it does is a
  call to one of two external libraries, the OpenGL binding and GLFW.  The model has
  three layers:
  \<^item> \<open>env\<close>: what the outside will answer (the GLSL compiler and linker of the driver,
    the clock, the user's input, whether the libraries initialise);
  \<^item> \<open>world\<close>: the state of the two libraries (objects, bindings, the close flag, the
    key states), the list of calls received so far (\<open>trace\<close>) and the list of
    framebuffer operations performed so far (\<open>fb\<close>);
  \<^item> the four functions of main.go (\<open>initGlfw\<close>, \<open>initOpenGL\<close>, \<open>compileShader\<close>,
    \<open>makeVao\<close>) and \<open>main\<close>, written over these calls in the order of the source.

  Go's \<open>float64\<close> arithmetic is read over the real numbers, as the specification reads
  it.  The conversion \<open>float32(x)\<close> is a parameter of the environment, so the results
  hold for any rounding (one of them asks that it be monotone).  Output on the standard
  streams (\<open>fmt.Printf\<close>, \<open>log.Println\<close>) and \<open>runtime.LockOSThread\<close> have no effect
  on what follows and are left out.
\<close>

subsection \<open>Machine types and the constants of the two libraries\<close>

type_synonym uint32 = "32 word"
type_synonym int32 = "32 word"  \<comment> \<open>two's complement, read with \<open>sint\<close>\<close>
type_synonym vec4 = "real \<times> real \<times> real \<times> real"
type_synonym error = "string option"  \<comment> \<open>Go's \<open>error\<close>: \<open>None\<close> is \<open>nil\<close>\<close>

datatype 'a result = Panic string | Ok 'a

definition NUL :: char where "NUL = CHR 0x00"

text \<open>The values of the constants are those of the packages gl/v3.3-core and glfw/v3.3.\<close>

definition GL_FALSE :: int32 where "GL_FALSE = 0"
definition GL_TRUE :: int32 where "GL_TRUE = 1"
definition GL_VERSION :: uint32 where "GL_VERSION = 0x1F02"
definition VERTEX_SHADER :: uint32 where "VERTEX_SHADER = 0x8B31"
definition FRAGMENT_SHADER :: uint32 where "FRAGMENT_SHADER = 0x8B30"
definition COMPILE_STATUS :: uint32 where "COMPILE_STATUS = 0x8B81"
definition INFO_LOG_LENGTH :: uint32 where "INFO_LOG_LENGTH = 0x8B84"
definition ARRAY_BUFFER :: uint32 where "ARRAY_BUFFER = 0x8892"
definition STATIC_DRAW :: uint32 where "STATIC_DRAW = 0x88E4"
definition GL_FLOAT :: uint32 where "GL_FLOAT = 0x1406"
definition TRIANGLES :: uint32 where "TRIANGLES = 0x0004"
definition COLOR_BUFFER_BIT :: uint32 where "COLOR_BUFFER_BIT = 0x4000"
definition DEPTH_BUFFER_BIT :: uint32 where "DEPTH_BUFFER_BIT = 0x0100"

definition KeyEscape :: int where "KeyEscape = 256"
definition Resizable :: int where "Resizable = 0x00020003"
definition ContextVersionMajor :: int where "ContextVersionMajor = 0x00022002"
definition ContextVersionMinor :: int where "ContextVersionMinor = 0x00022003"
definition OpenGLProfile :: int where "OpenGLProfile = 0x00022008"
definition OpenGLCoreProfile :: int where "OpenGLCoreProfile = 0x00032001"
definition OpenGLForwardCompatible :: int where "OpenGLForwardCompatible = 0x00022006"
definition glfw_False :: int where "glfw_False = 0"
definition glfw_True :: int where "glfw_True = 1"

datatype action = Release | Press | Repeat

fun action_code :: "action \<Rightarrow> int" where
  "action_code Release = 0"
| "action_code Press = 1"
| "action_code Repeat = 2"

subsection \<open>The constants of main.go\<close>

definition width :: int where "width = 800"
definition height :: int where "height = 600"

definition LF :: char where "LF = CHR 0x0A"
definition TAB :: char where "TAB = CHR 0x09"

definition vertexShaderSource :: string where
  "vertexShaderSource =
     [LF] @
     [TAB, TAB] @ ''#version 330'' @ [LF] @
     [TAB, TAB] @ ''layout (location = 0) in vec3 aPos;'' @ [LF] @
     [LF] @
     [TAB, TAB] @ ''void main() {'' @ [LF] @
     [TAB, TAB, TAB] @ ''gl_Position = vec4(aPos, 1.0);'' @ [LF] @
     [TAB, TAB] @ ''}'' @ [LF] @
     [TAB] @ [NUL]"

definition fragmentShaderSource :: string where
  "fragmentShaderSource =
     [LF] @
     [TAB, TAB] @ ''#version 330'' @ [LF] @
     [TAB, TAB] @ ''out vec4 FragColor;'' @ [LF] @
     [LF] @
     [TAB, TAB] @ ''uniform vec4 ourColor;'' @ [LF] @
     [LF] @
     [TAB, TAB] @ ''void main() {'' @ [LF] @
     [TAB, TAB, TAB] @ ''FragColor = ourColor;'' @ [LF] @
     [TAB, TAB] @ ''}'' @ [LF] @
     [TAB] @ [NUL]"

text \<open>
  Both raw string literals end with the NUL the source appends.  The point sets are
  \<open>[]float32\<close> literals: each number is converted to \<open>float32\<close>.
\<close>

definition triangle :: "(real \<Rightarrow> real) \<Rightarrow> real list" where
  "triangle f32 = map f32 [0, 0.3, 0,  -0.3, -0.3, 0,  0.3, -0.3, 0]"

definition triangleBg :: "(real \<Rightarrow> real) \<Rightarrow> real list" where
  "triangleBg f32 = map f32 [0, 0.32, 0,  -0.32, -0.315, 0,  0.32, -0.315, 0]"

subsection \<open>The environment\<close>

datatype event = KeyEvent int action | CloseRequest

record env =
  float32 :: "real \<Rightarrow> real"
  glfw_init_error :: error
  create_window_error :: error
  gl_init_error :: error
  glsl_compile :: "uint32 \<Rightarrow> string \<Rightarrow> bool \<times> string"
  glsl_link :: "(uint32 \<times> string) list \<Rightarrow> (string \<times> int32) list option"
  clock :: "nat \<Rightarrow> real"
  input :: "nat \<Rightarrow> event list"

text \<open>
  \<open>glsl_compile e stage source\<close> is the driver's verdict on a source text: the compile
  status and the information log.  \<open>glsl_link e stages\<close> is its verdict on a list of
  compiled stages: \<open>None\<close> when linking fails, otherwise the locations of the active
  uniforms.  \<open>clock e n\<close> is the answer to the \<open>n\<close>-th query of the timer and
  \<open>input e n\<close> the events that the \<open>n\<close>-th poll finds pending.
\<close>

subsection \<open>The state of the libraries\<close>

datatype call =
    GlfwInit
  | WindowHint int int
  | CreateWindow int int string
  | MakeContextCurrent
  | GlInit
  | GetString uint32
  | CreateShader uint32
  | ShaderSource uint32 string
  | CompileShader uint32
  | GetShaderiv uint32 uint32
  | GetShaderInfoLog uint32 int32
  | CreateProgram
  | AttachShader uint32 uint32
  | LinkProgram uint32
  | GenBuffers
  | BindBuffer uint32 uint32
  | BufferData uint32 int "real list" uint32
  | GenVertexArrays
  | BindVertexArray uint32
  | EnableVertexAttribArray uint32
  | VertexAttribPointer uint32 int32 uint32 bool int32
  | ClearColor real real real real
  | Clear uint32
  | UseProgram uint32
  | GetUniformLocation uint32 string
  | Uniform4f int32 real real real real
  | DrawArrays uint32 int32 int32
  | ShouldClose
  | GetKey int
  | SetShouldClose bool
  | GetTime
  | PollEvents
  | SwapBuffers
  | Terminate

record shader_obj =
  sh_type :: uint32
  sh_source :: string
  sh_status :: bool
  sh_log :: string

record program_obj =
  pg_shaders :: "uint32 list"
  pg_link :: "bool option"  \<comment> \<open>\<open>None\<close> until \<open>LinkProgram\<close> is called\<close>
  pg_locations :: "(string \<times> int32) list"
  pg_uniforms :: "int32 \<rightharpoonup> vec4"

record vao_obj =
  va_enabled :: bool  \<comment> \<open>attribute 0 is enabled\<close>
  va_buffer :: uint32  \<comment> \<open>the buffer attribute 0 reads\<close>
  va_size :: int32  \<comment> \<open>components per vertex of attribute 0\<close>

record draw =
  dr_mode :: uint32
  dr_first :: int32
  dr_count :: int32
  dr_program :: "program_obj option"
  dr_vao :: "vao_obj option"
  dr_data :: "real list option"

datatype fb_op = Cleared uint32 vec4 | Drew draw | Swapped

record world =
  trace :: "call list"
  fb :: "fb_op list"
  names :: uint32
  shaders :: "uint32 \<rightharpoonup> shader_obj"
  programs :: "uint32 \<rightharpoonup> program_obj"
  buffers :: "uint32 \<rightharpoonup> real list"
  vaos :: "uint32 \<rightharpoonup> vao_obj"
  array_buffer :: uint32
  vertex_array :: uint32
  current_program :: uint32
  clear_color :: vec4
  should_close :: bool
  keys :: "int \<Rightarrow> action"
  polls :: nat
  ticks :: nat

definition world0 :: world where
  "world0 = \<lparr> trace = [], fb = [], names = 0, shaders = Map.empty, programs = Map.empty,
     buffers = Map.empty, vaos = Map.empty, array_buffer = 0, vertex_array = 0,
     current_program = 0, clear_color = (0, 0, 0, 0), should_close = False,
     keys = (\<lambda>k. Release), polls = 0, ticks = 0 \<rparr>"

definition called :: "call \<Rightarrow> world \<Rightarrow> world" where
  "called c w = w\<lparr>trace := trace w @ [c]\<rparr>"

text \<open>
  Each call is recorded in the trace and changes some tables of the state.  The change
  itself is a function of the tables concerned, defined first, so that the call reads as
  one update of the world.
\<close>

definition adjust :: "'k \<Rightarrow> ('v \<Rightarrow> 'v) \<Rightarrow> ('k \<rightharpoonup> 'v) \<Rightarrow> ('k \<rightharpoonup> 'v)" where
  "adjust k f m = (case m k of None \<Rightarrow> m | Some x \<Rightarrow> m(k \<mapsto> f x))"

definition cstr :: "string \<Rightarrow> string" where
  "cstr s = takeWhile (\<lambda>c. c \<noteq> NUL) s"

subsection \<open>GLFW: the window, the keys and the clock\<close>

definition glfw_Init :: "env \<Rightarrow> world \<Rightarrow> error \<times> world" where
  "glfw_Init e w = (glfw_init_error e, called GlfwInit w)"

definition glfw_WindowHint :: "int \<Rightarrow> int \<Rightarrow> world \<Rightarrow> world" where
  "glfw_WindowHint h v w = called (WindowHint h v) w"

definition glfw_CreateWindow :: "env \<Rightarrow> int \<Rightarrow> int \<Rightarrow> string \<Rightarrow> world \<Rightarrow> error \<times> world" where
  "glfw_CreateWindow e wd ht title w = (create_window_error e, called (CreateWindow wd ht title) w)"

definition window_MakeContextCurrent :: "world \<Rightarrow> world" where
  "window_MakeContextCurrent w = called MakeContextCurrent w"

definition window_ShouldClose :: "world \<Rightarrow> bool \<times> world" where
  "window_ShouldClose w = (should_close w, called ShouldClose w)"

definition window_SetShouldClose :: "bool \<Rightarrow> world \<Rightarrow> world" where
  "window_SetShouldClose b w = called (SetShouldClose b) (w\<lparr>should_close := b\<rparr>)"

definition window_GetKey :: "int \<Rightarrow> world \<Rightarrow> int \<times> world" where
  "window_GetKey k w = (action_code (keys w k), called (GetKey k) w)"

definition glfw_GetTime :: "env \<Rightarrow> world \<Rightarrow> real \<times> world" where
  "glfw_GetTime e w = (clock e (ticks w), called GetTime (w\<lparr>ticks := Suc (ticks w)\<rparr>))"

text \<open>
  A poll delivers the pending events in order.  A key event sets the state that
  \<open>GetKey\<close> reports (a repeat leaves it pressed); a close request sets the close flag.
  The state of the keys changes in a poll and nowhere else.
\<close>

fun deliver :: "event \<Rightarrow> (int \<Rightarrow> action) \<times> bool \<Rightarrow> (int \<Rightarrow> action) \<times> bool" where
  "deliver (KeyEvent k Repeat) (ks, sc) = (ks, sc)"
| "deliver (KeyEvent k a) (ks, sc) = (ks(k := a), sc)"
| "deliver CloseRequest (ks, sc) = (ks, True)"

definition glfw_PollEvents :: "env \<Rightarrow> world \<Rightarrow> world" where
  "glfw_PollEvents e w =
     called PollEvents
       (w\<lparr>polls := Suc (polls w),
          keys := fst (fold deliver (input e (polls w)) (keys w, should_close w)),
          should_close := snd (fold deliver (input e (polls w)) (keys w, should_close w))\<rparr>)"

definition window_SwapBuffers :: "world \<Rightarrow> world" where
  "window_SwapBuffers w = called SwapBuffers (w\<lparr>fb := fb w @ [Swapped]\<rparr>)"

definition glfw_Terminate :: "world \<Rightarrow> world" where
  "glfw_Terminate w = called Terminate w"

subsection \<open>OpenGL: shaders and programs\<close>

definition gl_Init :: "env \<Rightarrow> world \<Rightarrow> error \<times> world" where
  "gl_Init e w = (gl_init_error e, called GlInit w)"

definition gl_GetString :: "uint32 \<Rightarrow> world \<Rightarrow> world" where
  "gl_GetString n w = called (GetString n) w"

text \<open>Objects are named by the numbers 1, 2, ... in the order of their creation.\<close>

definition gl_CreateShader :: "uint32 \<Rightarrow> world \<Rightarrow> uint32 \<times> world" where
  "gl_CreateShader ty w =
     (names w + 1,
      called (CreateShader ty)
        (w\<lparr>names := names w + 1,
           shaders := (shaders w)(names w + 1 \<mapsto>
              \<lparr>sh_type = ty, sh_source = [], sh_status = False, sh_log = []\<rparr>)\<rparr>))"

text \<open>The source is passed as one C string with no length: the driver reads up to NUL.\<close>

definition gl_ShaderSource :: "uint32 \<Rightarrow> string \<Rightarrow> world \<Rightarrow> world" where
  "gl_ShaderSource sh src w =
     called (ShaderSource sh src)
       (w\<lparr>shaders := adjust sh (\<lambda>so. so\<lparr>sh_source := cstr src\<rparr>) (shaders w)\<rparr>)"

definition compiled :: "env \<Rightarrow> shader_obj \<Rightarrow> shader_obj" where
  "compiled e so =
     so\<lparr>sh_status := fst (glsl_compile e (sh_type so) (sh_source so)),
        sh_log := snd (glsl_compile e (sh_type so) (sh_source so))\<rparr>"

definition gl_CompileShader :: "env \<Rightarrow> uint32 \<Rightarrow> world \<Rightarrow> world" where
  "gl_CompileShader e sh w =
     called (CompileShader sh) (w\<lparr>shaders := adjust sh (compiled e) (shaders w)\<rparr>)"

text \<open>
  \<open>GetShaderiv\<close> writes through a pointer to a variable that Go has initialised to 0;
  where the driver writes nothing (no such shader, unknown parameter) the result is 0.
  The length of the log counts its terminating NUL, and is 0 when there is no log.
\<close>

definition shader_param :: "shader_obj option \<Rightarrow> uint32 \<Rightarrow> int32" where
  "shader_param sho pname =
     (case sho of
        None \<Rightarrow> 0
      | Some so \<Rightarrow>
          if pname = COMPILE_STATUS then (if sh_status so then GL_TRUE else GL_FALSE)
          else if pname = INFO_LOG_LENGTH
            then (if sh_log so = [] then 0 else of_nat (length (sh_log so) + 1))
          else 0)"

definition gl_GetShaderiv :: "uint32 \<Rightarrow> uint32 \<Rightarrow> world \<Rightarrow> int32 \<times> world" where
  "gl_GetShaderiv sh pname w = (shader_param (shaders w sh) pname, called (GetShaderiv sh pname) w)"

text \<open>
  \<open>GetShaderInfoLog\<close> writes at most \<open>bufSize\<close> characters, the terminating NUL included,
  over the start of the buffer it is given, and the rest of the buffer stays.
\<close>

definition written_log :: "shader_obj option \<Rightarrow> int32 \<Rightarrow> string \<Rightarrow> string" where
  "written_log sho bufSize buf =
     (case sho of
        None \<Rightarrow> buf
      | Some so \<Rightarrow>
          if sint bufSize \<le> 0 then buf
          else take (nat (sint bufSize) - 1) (sh_log so) @ [NUL] @
               drop (length (take (nat (sint bufSize) - 1) (sh_log so) @ [NUL])) buf)"

definition gl_GetShaderInfoLog :: "uint32 \<Rightarrow> int32 \<Rightarrow> string \<Rightarrow> world \<Rightarrow> string \<times> world" where
  "gl_GetShaderInfoLog sh bufSize buf w =
     (written_log (shaders w sh) bufSize buf, called (GetShaderInfoLog sh bufSize) w)"

definition gl_CreateProgram :: "world \<Rightarrow> uint32 \<times> world" where
  "gl_CreateProgram w =
     (names w + 1,
      called CreateProgram
        (w\<lparr>names := names w + 1,
           programs := (programs w)(names w + 1 \<mapsto>
              \<lparr>pg_shaders = [], pg_link = None, pg_locations = [],
               pg_uniforms = Map.empty\<rparr>)\<rparr>))"

definition attached :: "shader_obj option \<Rightarrow> uint32 \<Rightarrow> program_obj \<Rightarrow> program_obj" where
  "attached sho sh pg =
     (case sho of None \<Rightarrow> pg | Some so \<Rightarrow> pg\<lparr>pg_shaders := pg_shaders pg @ [sh]\<rparr>)"

definition gl_AttachShader :: "uint32 \<Rightarrow> uint32 \<Rightarrow> world \<Rightarrow> world" where
  "gl_AttachShader p sh w =
     called (AttachShader p sh)
       (w\<lparr>programs := adjust p (attached (shaders w sh) sh) (programs w)\<rparr>)"

text \<open>
  Linking fails when an attached shader is not compiled, and otherwise is the driver's
  decision.  A link resets the uniforms of the program.
\<close>

definition attached_stages ::
    "(uint32 \<rightharpoonup> shader_obj) \<Rightarrow> uint32 list \<Rightarrow> (uint32 \<times> string) list option" where
  "attached_stages shs xs =
     (if list_all (\<lambda>sh. case shs sh of None \<Rightarrow> False | Some so \<Rightarrow> sh_status so) xs
      then Some (concat (map (\<lambda>sh. case shs sh of None \<Rightarrow> []
                                   | Some so \<Rightarrow> [(sh_type so, sh_source so)]) xs))
      else None)"

definition linked :: "env \<Rightarrow> (uint32 \<rightharpoonup> shader_obj) \<Rightarrow> program_obj \<Rightarrow> program_obj" where
  "linked e shs pg =
     (case Option.bind (attached_stages shs (pg_shaders pg)) (glsl_link e) of
        None \<Rightarrow> pg\<lparr>pg_link := Some False, pg_locations := [], pg_uniforms := Map.empty\<rparr>
      | Some locs \<Rightarrow> pg\<lparr>pg_link := Some True, pg_locations := locs, pg_uniforms := Map.empty\<rparr>)"

definition gl_LinkProgram :: "env \<Rightarrow> uint32 \<Rightarrow> world \<Rightarrow> world" where
  "gl_LinkProgram e p w =
     called (LinkProgram p) (w\<lparr>programs := adjust p (linked e (shaders w)) (programs w)\<rparr>)"

text \<open>A program that is not linked cannot be made current: the call is an error.\<close>

definition use_program :: "(uint32 \<rightharpoonup> program_obj) \<Rightarrow> uint32 \<Rightarrow> uint32 \<Rightarrow> uint32" where
  "use_program progs p cur =
     (if p = 0 then 0
      else (case progs p of
              None \<Rightarrow> cur
            | Some pg \<Rightarrow> if pg_link pg = Some True then p else cur))"

definition gl_UseProgram :: "uint32 \<Rightarrow> world \<Rightarrow> world" where
  "gl_UseProgram p w =
     called (UseProgram p)
       (w\<lparr>current_program := use_program (programs w) p (current_program w)\<rparr>)"

text \<open>
  The location of a uniform is fixed by the link; the answer is -1 for a name that is
  not an active uniform and for a program that is not linked.
\<close>

definition uniform_location :: "(uint32 \<rightharpoonup> program_obj) \<Rightarrow> uint32 \<Rightarrow> string \<Rightarrow> int32" where
  "uniform_location progs p name =
     (case progs p of
        None \<Rightarrow> -1
      | Some pg \<Rightarrow>
          if pg_link pg = Some True
          then (case map_of (pg_locations pg) name of None \<Rightarrow> -1 | Some l \<Rightarrow> l)
          else -1)"

definition gl_GetUniformLocation :: "uint32 \<Rightarrow> string \<Rightarrow> world \<Rightarrow> int32 \<times> world" where
  "gl_GetUniformLocation p name w =
     (uniform_location (programs w) p name, called (GetUniformLocation p name) w)"

text \<open>
  \<open>Uniform4f\<close> writes to the current program.  Location -1 is ignored silently, any
  other location that the program does not have is an error, and neither changes a
  value.
\<close>

definition with_uniform :: "int32 \<Rightarrow> vec4 \<Rightarrow> program_obj \<Rightarrow> program_obj" where
  "with_uniform l v pg =
     (if l \<noteq> -1 \<and> pg_link pg = Some True \<and> l \<in> snd ` set (pg_locations pg)
      then pg\<lparr>pg_uniforms := (pg_uniforms pg)(l \<mapsto> v)\<rparr>
      else pg)"

definition gl_Uniform4f :: "int32 \<Rightarrow> real \<Rightarrow> real \<Rightarrow> real \<Rightarrow> real \<Rightarrow> world \<Rightarrow> world" where
  "gl_Uniform4f l x y z a w =
     called (Uniform4f l x y z a)
       (w\<lparr>programs := adjust (current_program w) (with_uniform l (x, y, z, a)) (programs w)\<rparr>)"

subsection \<open>OpenGL: buffers, vertex arrays, clearing and drawing\<close>

definition gl_GenBuffers :: "world \<Rightarrow> uint32 \<times> world" where
  "gl_GenBuffers w = (names w + 1, called GenBuffers (w\<lparr>names := names w + 1\<rparr>))"

definition bound_buffer :: "uint32 \<Rightarrow> uint32 \<Rightarrow> uint32 \<Rightarrow> uint32" where
  "bound_buffer target b cur = (if target = ARRAY_BUFFER then b else cur)"

definition gl_BindBuffer :: "uint32 \<Rightarrow> uint32 \<Rightarrow> world \<Rightarrow> world" where
  "gl_BindBuffer target b w =
     called (BindBuffer target b) (w\<lparr>array_buffer := bound_buffer target b (array_buffer w)\<rparr>)"

text \<open>
  \<open>BufferData\<close> copies \<open>sz\<close> bytes from the pointer into the store of the buffer bound
  to the target; a \<open>float32\<close> is four bytes.
\<close>

definition stored ::
    "uint32 \<Rightarrow> uint32 \<Rightarrow> int \<Rightarrow> real list \<Rightarrow> (uint32 \<rightharpoonup> real list) \<Rightarrow> (uint32 \<rightharpoonup> real list)" where
  "stored target b sz data bs =
     (if target = ARRAY_BUFFER \<and> b \<noteq> 0 \<and> 0 \<le> sz
      then bs(b \<mapsto> take (nat sz div 4) data)
      else bs)"

definition gl_BufferData :: "uint32 \<Rightarrow> int \<Rightarrow> real list \<Rightarrow> uint32 \<Rightarrow> world \<Rightarrow> world" where
  "gl_BufferData target sz data usage w =
     called (BufferData target sz data usage)
       (w\<lparr>buffers := stored target (array_buffer w) sz data (buffers w)\<rparr>)"

definition gl_GenVertexArrays :: "world \<Rightarrow> uint32 \<times> world" where
  "gl_GenVertexArrays w = (names w + 1, called GenVertexArrays (w\<lparr>names := names w + 1\<rparr>))"

text \<open>Binding a name for the first time creates the vertex array, with no attribute enabled.\<close>

definition bound_vao :: "uint32 \<Rightarrow> (uint32 \<rightharpoonup> vao_obj) \<Rightarrow> (uint32 \<rightharpoonup> vao_obj)" where
  "bound_vao v vs =
     (if v = 0 then vs
      else (case vs v of
              Some va \<Rightarrow> vs
            | None \<Rightarrow> vs(v \<mapsto> \<lparr>va_enabled = False, va_buffer = 0, va_size = 4\<rparr>)))"

definition gl_BindVertexArray :: "uint32 \<Rightarrow> world \<Rightarrow> world" where
  "gl_BindVertexArray v w =
     called (BindVertexArray v) (w\<lparr>vertex_array := v, vaos := bound_vao v (vaos w)\<rparr>)"

definition enabled :: "uint32 \<Rightarrow> vao_obj \<Rightarrow> vao_obj" where
  "enabled i va = (if i = 0 then va\<lparr>va_enabled := True\<rparr> else va)"

definition gl_EnableVertexAttribArray :: "uint32 \<Rightarrow> world \<Rightarrow> world" where
  "gl_EnableVertexAttribArray i w =
     called (EnableVertexAttribArray i)
       (w\<lparr>vaos := adjust (vertex_array w) (enabled i) (vaos w)\<rparr>)"

definition pointed :: "uint32 \<Rightarrow> int32 \<Rightarrow> uint32 \<Rightarrow> vao_obj \<Rightarrow> vao_obj" where
  "pointed i sz b va = (if i = 0 then va\<lparr>va_buffer := b, va_size := sz\<rparr> else va)"

definition gl_VertexAttribPointer ::
    "uint32 \<Rightarrow> int32 \<Rightarrow> uint32 \<Rightarrow> bool \<Rightarrow> int32 \<Rightarrow> world \<Rightarrow> world" where
  "gl_VertexAttribPointer i sz xtype normalized stride w =
     called (VertexAttribPointer i sz xtype normalized stride)
       (w\<lparr>vaos := adjust (vertex_array w) (pointed i sz (array_buffer w)) (vaos w)\<rparr>)"

definition gl_ClearColor :: "real \<Rightarrow> real \<Rightarrow> real \<Rightarrow> real \<Rightarrow> world \<Rightarrow> world" where
  "gl_ClearColor r g bl a w = called (ClearColor r g bl a) (w\<lparr>clear_color := (r, g, bl, a)\<rparr>)"

definition gl_Clear :: "uint32 \<Rightarrow> world \<Rightarrow> world" where
  "gl_Clear m w = called (Clear m) (w\<lparr>fb := fb w @ [Cleared m (clear_color w)]\<rparr>)"

text \<open>
  A draw is recorded with what it reads: the current program (with the values of its
  uniforms), the bound vertex array, and the store of the buffer that feeds attribute 0.
\<close>

definition vertex_data ::
    "(uint32 \<rightharpoonup> vao_obj) \<Rightarrow> (uint32 \<rightharpoonup> real list) \<Rightarrow> uint32 \<Rightarrow> real list option" where
  "vertex_data vs bs v =
     (case vs v of
        None \<Rightarrow> None
      | Some va \<Rightarrow> if va_enabled va then bs (va_buffer va) else None)"

definition gl_DrawArrays :: "uint32 \<Rightarrow> int32 \<Rightarrow> int32 \<Rightarrow> world \<Rightarrow> world" where
  "gl_DrawArrays mode first count w =
     called (DrawArrays mode first count)
       (w\<lparr>fb := fb w @ [Drew \<lparr>dr_mode = mode, dr_first = first, dr_count = count,
                              dr_program = programs w (current_program w),
                              dr_vao = vaos w (vertex_array w),
                              dr_data = vertex_data (vaos w) (buffers w) (vertex_array w)\<rparr>]\<rparr>)"

subsection \<open>Two functions of Go's library\<close>

text \<open>\<open>strings.Repeat\<close> panics on a negative count; \<open>gl.Str\<close> panics on a string that
  does not end with NUL, and otherwise is the address of the string's bytes.\<close>

definition strings_Repeat :: "string \<Rightarrow> int \<Rightarrow> string result" where
  "strings_Repeat s count =
     (if count < 0 then Panic ''strings: negative Repeat count''
      else Ok (concat (replicate (nat count) s)))"

definition gl_Str :: "string \<Rightarrow> string result" where
  "gl_Str s =
     (if s \<noteq> [] \<and> last s = NUL then Ok s
      else Panic (''str argument missing null terminator: '' @ s))"

subsection \<open>main.go\<close>

definition initGlfw :: "env \<Rightarrow> world \<Rightarrow> unit result \<times> world" where
  "initGlfw e w0 =
     (case glfw_Init e w0 of
        (Some err, w1) \<Rightarrow> (Panic err, w1)
      | (None, w1) \<Rightarrow>
          (let w2 = glfw_WindowHint Resizable glfw_False w1;
               w3 = glfw_WindowHint ContextVersionMajor 4 w2;
               w4 = glfw_WindowHint ContextVersionMinor 1 w3;
               w5 = glfw_WindowHint OpenGLProfile OpenGLCoreProfile w4;
               w6 = glfw_WindowHint OpenGLForwardCompatible glfw_True w5
           in case glfw_CreateWindow e width height ''test-crossplatform'' w6 of
                (Some err, w7) \<Rightarrow> (Panic err, w7)
              | (None, w7) \<Rightarrow> (Ok (), window_MakeContextCurrent w7)))"

text \<open>
  \<open>compileShader\<close> returns Go's pair of a handle and an error.  In the failure branch
  the buffer for the log is \<open>logLength + 1\<close> NUL characters, the sum computed in
  \<open>int32\<close>, and the driver writes the log over it.
\<close>

definition compileShader :: "env \<Rightarrow> string \<Rightarrow> uint32 \<Rightarrow> world \<Rightarrow> (uint32 \<times> error) result \<times> world" where
  "compileShader e source shaderType w0 =
     (let (shader, w1) = gl_CreateShader shaderType w0;
          w2 = gl_ShaderSource shader source w1;
          w3 = gl_CompileShader e shader w2;
          (status, w4) = gl_GetShaderiv shader COMPILE_STATUS w3
      in if status = GL_FALSE
         then (let (logLength, w5) = gl_GetShaderiv shader INFO_LOG_LENGTH w4
               in case strings_Repeat [NUL] (sint (logLength + 1)) of
                    Panic m \<Rightarrow> (Panic m, w5)
                  | Ok buf \<Rightarrow>
                      (case gl_Str buf of
                         Panic m \<Rightarrow> (Panic m, w5)
                       | Ok ptr \<Rightarrow>
                           (let (log, w6) = gl_GetShaderInfoLog shader logLength ptr w5
                            in (Ok (0, Some (''failed to compile '' @ source @ '': '' @ log)), w6))))
         else (Ok (shader, None), w4))"

definition initOpenGL :: "env \<Rightarrow> world \<Rightarrow> uint32 result \<times> world" where
  "initOpenGL e w0 =
     (case gl_Init e w0 of
        (Some err, w1) \<Rightarrow> (Panic err, w1)
      | (None, w1) \<Rightarrow>
          (let w2 = gl_GetString GL_VERSION w1
           in case compileShader e vertexShaderSource VERTEX_SHADER w2 of
                (Panic m, w3) \<Rightarrow> (Panic m, w3)
              | (Ok (vertexShader, Some err), w3) \<Rightarrow> (Panic err, w3)
              | (Ok (vertexShader, None), w3) \<Rightarrow>
                  (case compileShader e fragmentShaderSource FRAGMENT_SHADER w3 of
                     (Panic m, w4) \<Rightarrow> (Panic m, w4)
                   | (Ok (fragmentShader, Some err), w4) \<Rightarrow> (Panic err, w4)
                   | (Ok (fragmentShader, None), w4) \<Rightarrow>
                       (let (prog, w5) = gl_CreateProgram w4;
                            w6 = gl_AttachShader prog vertexShader w5;
                            w7 = gl_AttachShader prog fragmentShader w6;
                            w8 = gl_LinkProgram e prog w7
                        in (Ok prog, w8)))))"

definition makeVao :: "real list \<Rightarrow> world \<Rightarrow> uint32 \<times> world" where
  "makeVao points w0 =
     (let (vbo, w1) = gl_GenBuffers w0;
          w2 = gl_BindBuffer ARRAY_BUFFER vbo w1;
          w3 = gl_BufferData ARRAY_BUFFER (4 * int (length points)) points STATIC_DRAW w2;
          (vao, w4) = gl_GenVertexArrays w3;
          w5 = gl_BindVertexArray vao w4;
          w6 = gl_EnableVertexAttribArray 0 w5;
          w7 = gl_BindBuffer ARRAY_BUFFER vbo w6;
          w8 = gl_VertexAttribPointer 0 3 GL_FLOAT False 0 w7
      in (vao, w8))"

definition redValue :: "real \<Rightarrow> real" where
  "redValue timeValue = sin timeValue / 2 + 0.5"

text \<open>The body of the render loop, one frame.\<close>

definition frame :: "env \<Rightarrow> uint32 \<Rightarrow> uint32 \<Rightarrow> uint32 \<Rightarrow> world \<Rightarrow> world" where
  "frame e program vao vao2 w0 =
     (let (key, w1) = window_GetKey KeyEscape w0;
          w2 = (if key = 1 then window_SetShouldClose True w1 else w1);
          w3 = gl_Clear (COLOR_BUFFER_BIT OR DEPTH_BUFFER_BIT) w2;
          (timeValue, w4) = glfw_GetTime e w3;
          w5 = gl_UseProgram program w4;
          w6 = gl_BindVertexArray vao2 w5;
          (vertexColorLocation2, w7) = gl_GetUniformLocation program (cstr (''ourColor'' @ [NUL])) w6;
          w8 = gl_Uniform4f vertexColorLocation2
                 (float32 e (redValue timeValue / 1.5)) (float32 e (redValue timeValue / 2))
                 (float32 e 0.0) (float32 e 1.0) w7;
          w9 = gl_DrawArrays TRIANGLES 0 (of_int (int (length (triangleBg (float32 e))) div 3)) w8;
          (vertexColorLocation, w10) = gl_GetUniformLocation program (cstr (''ourColor'' @ [NUL])) w9;
          w11 = gl_Uniform4f vertexColorLocation
                  (float32 e (redValue timeValue)) (float32 e (redValue timeValue))
                  (float32 e 0.0) (float32 e 1.0) w10;
          w12 = gl_BindVertexArray vao w11;
          w13 = gl_DrawArrays TRIANGLES 0 (of_int (int (length (triangle (float32 e))) div 3)) w12;
          w14 = glfw_PollEvents e w13
      in window_SwapBuffers w14)"

text \<open>
  The render loop may run for ever, so it takes the number of iterations it may still
  start.  The result says whether the loop has ended: \<open>True\<close> when the close flag was
  found set, \<open>False\<close> when the iterations are used up.
\<close>

fun render_loop :: "env \<Rightarrow> uint32 \<Rightarrow> uint32 \<Rightarrow> uint32 \<Rightarrow> nat \<Rightarrow> world \<Rightarrow> bool \<times> world" where
  "render_loop e program vao vao2 0 w = (False, w)"
| "render_loop e program vao vao2 (Suc n) w =
     (case window_ShouldClose w of
        (True, w1) \<Rightarrow> (True, w1)
      | (False, w1) \<Rightarrow> render_loop e program vao vao2 n (frame e program vao vao2 w1))"

datatype outcome = Panicked string | Exited | StillLooping

definition main :: "env \<Rightarrow> nat \<Rightarrow> outcome \<times> world" where
  "main e n =
     (case initGlfw e world0 of
        (Panic m, w1) \<Rightarrow> (Panicked m, w1)
      | (Ok window, w1) \<Rightarrow>
          (case initOpenGL e w1 of
             (Panic m, w2) \<Rightarrow> (Panicked m, w2)
           | (Ok program, w2) \<Rightarrow>
               (let (vao, w3) = makeVao (triangle (float32 e)) w2;
                    (vao2, w4) = makeVao (triangleBg (float32 e)) w3;
                    w5 = gl_ClearColor (float32 e 0.3) (float32 e 0.3) (float32 e 0.3) (float32 e 1.0) w4
                in case render_loop e program vao vao2 n w5 of
                     (True, w6) \<Rightarrow> (Exited, glfw_Terminate w6)
                   | (False, w6) \<Rightarrow> (StillLooping, w6))))"

subsection \<open>What is observed of a run\<close>

text \<open>The calls and the framebuffer operations that one frame adds, started in \<open>w\<close>.\<close>

definition frame_calls :: "env \<Rightarrow> uint32 \<Rightarrow> uint32 \<Rightarrow> uint32 \<Rightarrow> world \<Rightarrow> call list" where
  "frame_calls e program vao vao2 w = drop (length (trace w)) (trace (frame e program vao vao2 w))"

definition frame_fb :: "env \<Rightarrow> uint32 \<Rightarrow> uint32 \<Rightarrow> uint32 \<Rightarrow> world \<Rightarrow> fb_op list" where
  "frame_fb e program vao vao2 w = drop (length (fb w)) (fb (frame e program vao vao2 w))"

text \<open>The calls that one \<open>compileShader\<close> adds.\<close>

definition compile_calls :: "env \<Rightarrow> string \<Rightarrow> uint32 \<Rightarrow> world \<Rightarrow> call list" where
  "compile_calls e source shaderType w =
     drop (length (trace w)) (trace (snd (compileShader e source shaderType w)))"

fun draws :: "fb_op list \<Rightarrow> draw list" where
  "draws [] = []"
| "draws (Drew d # ops) = d # draws ops"
| "draws (op # ops) = draws ops"

fun clears :: "fb_op list \<Rightarrow> vec4 list" where
  "clears [] = []"
| "clears (Cleared m c # ops) = c # clears ops"
| "clears (op # ops) = clears ops"

text \<open>The value that a named uniform has in the program a draw runs.\<close>

definition uniform_value :: "draw \<Rightarrow> string \<Rightarrow> vec4 option" where
  "uniform_value d name =
     (case dr_program d of
        None \<Rightarrow> None
      | Some pg \<Rightarrow>
          (case map_of (pg_locations pg) name of
             None \<Rightarrow> None
           | Some l \<Rightarrow> pg_uniforms pg l))"

fun is_draw :: "call \<Rightarrow> bool" where
  "is_draw (DrawArrays m f c) = True"
| "is_draw c = False"

fun is_lookup :: "call \<Rightarrow> bool" where
  "is_lookup (GetUniformLocation p n) = True"
| "is_lookup c = False"

fun is_write :: "call \<Rightarrow> bool" where
  "is_write (Uniform4f l x y z a) = True"
| "is_write c = False"

fun is_bind :: "call \<Rightarrow> bool" where
  "is_bind (BindVertexArray v) = True"
| "is_bind c = False"

fun is_log_fetch :: "call \<Rightarrow> bool" where
  "is_log_fetch (GetShaderInfoLog sh n) = True"
| "is_log_fetch c = False"

text \<open>The values and the locations written by the \<open>Uniform4f\<close> calls of a trace.\<close>

fun uniform_writes :: "call list \<Rightarrow> (int32 \<times> vec4) list" where
  "uniform_writes [] = []"
| "uniform_writes (Uniform4f l x y z a # cs) = (l, (x, y, z, a)) # uniform_writes cs"
| "uniform_writes (c # cs) = uniform_writes cs"

definition le4 :: "vec4 \<Rightarrow> vec4 \<Rightarrow> bool" where
  "le4 u v =
     (case u of (u1, u2, u3, u4) \<Rightarrow>
      case v of (v1, v2, v3, v4) \<Rightarrow> u1 \<le> v1 \<and> u2 \<le> v2 \<and> u3 \<le> v3 \<and> u4 \<le> v4)"

text \<open>\<open>in_order xs ys\<close>: the elements of \<open>xs\<close> occur in \<open>ys\<close>, in this order.\<close>

fun in_order :: "'a list \<Rightarrow> 'a list \<Rightarrow> bool" where
  "in_order [] ys = True"
| "in_order (x # xs) [] = False"
| "in_order (x # xs) (y # ys) = (if x = y then in_order xs ys else in_order (x # xs) ys)"

text \<open>A call that names a program or makes one current.\<close>

fun uses_program :: "call \<Rightarrow> bool" where
  "uses_program (GetUniformLocation p n) = True"
| "uses_program (UseProgram p) = True"
| "uses_program c = False"

text \<open>
  What the variable \<open>log\<close> of \<open>compileShader\<close> holds after the driver has written a log
  \<open>lg\<close> over the buffer of NULs.
\<close>

definition log_buffer :: "string \<Rightarrow> string" where
  "log_buffer lg = (if lg = [] then [NUL] else lg @ [NUL, NUL])"

text \<open>The text that a buffer holds when it is read as a C string: up to its first NUL.\<close>

definition c_string :: "string \<Rightarrow> string" where
  "c_string buf = takeWhile (\<lambda>c. c \<noteq> NUL) buf"

subsection \<open>The world in which the render loop starts\<close>

text \<open>
  When the libraries initialise and both shaders compile, \<open>main\<close> reaches its loop with
  the shaders 1 and 2, the program 3, the foreground triangle in buffer 4 under vertex
  array 5 and the background triangle in buffer 6 under vertex array 7
  (\<open>main_reaches_loop\<close> below).
\<close>

definition linked_program :: "env \<Rightarrow> program_obj" where
  "linked_program e =
     (case glsl_link e [(VERTEX_SHADER, cstr vertexShaderSource),
                        (FRAGMENT_SHADER, cstr fragmentShaderSource)] of
        None \<Rightarrow> \<lparr>pg_shaders = [1, 2], pg_link = Some False, pg_locations = [],
                 pg_uniforms = Map.empty\<rparr>
      | Some locs \<Rightarrow> \<lparr>pg_shaders = [1, 2], pg_link = Some True, pg_locations = locs,
                      pg_uniforms = Map.empty\<rparr>)"

definition setup_calls :: "env \<Rightarrow> call list" where
  "setup_calls e =
     [GlfwInit, WindowHint Resizable glfw_False, WindowHint ContextVersionMajor 4,
      WindowHint ContextVersionMinor 1, WindowHint OpenGLProfile OpenGLCoreProfile,
      WindowHint OpenGLForwardCompatible glfw_True,
      CreateWindow width height ''test-crossplatform'', MakeContextCurrent,
      GlInit, GetString GL_VERSION,
      CreateShader VERTEX_SHADER, ShaderSource 1 vertexShaderSource, CompileShader 1,
      GetShaderiv 1 COMPILE_STATUS,
      CreateShader FRAGMENT_SHADER, ShaderSource 2 fragmentShaderSource, CompileShader 2,
      GetShaderiv 2 COMPILE_STATUS,
      CreateProgram, AttachShader 3 1, AttachShader 3 2, LinkProgram 3,
      GenBuffers, BindBuffer ARRAY_BUFFER 4,
      BufferData ARRAY_BUFFER 36 (triangle (float32 e)) STATIC_DRAW,
      GenVertexArrays, BindVertexArray 5, EnableVertexAttribArray 0, BindBuffer ARRAY_BUFFER 4,
      VertexAttribPointer 0 3 GL_FLOAT False 0,
      GenBuffers, BindBuffer ARRAY_BUFFER 6,
      BufferData ARRAY_BUFFER 36 (triangleBg (float32 e)) STATIC_DRAW,
      GenVertexArrays, BindVertexArray 7, EnableVertexAttribArray 0, BindBuffer ARRAY_BUFFER 6,
      VertexAttribPointer 0 3 GL_FLOAT False 0,
      ClearColor (float32 e 0.3) (float32 e 0.3) (float32 e 0.3) (float32 e 1)]"

definition loop_entry :: "env \<Rightarrow> world" where
  "loop_entry e =
     \<lparr> trace = setup_calls e, fb = [], names = 7,
       shaders =
         [1 \<mapsto> \<lparr>sh_type = VERTEX_SHADER, sh_source = cstr vertexShaderSource, sh_status = True,
                sh_log = snd (glsl_compile e VERTEX_SHADER (cstr vertexShaderSource))\<rparr>,
          2 \<mapsto> \<lparr>sh_type = FRAGMENT_SHADER, sh_source = cstr fragmentShaderSource, sh_status = True,
                sh_log = snd (glsl_compile e FRAGMENT_SHADER (cstr fragmentShaderSource))\<rparr>],
       programs = [3 \<mapsto> linked_program e],
       buffers = [4 \<mapsto> triangle (float32 e), 6 \<mapsto> triangleBg (float32 e)],
       vaos = [5 \<mapsto> \<lparr>va_enabled = True, va_buffer = 4, va_size = 3\<rparr>,
               7 \<mapsto> \<lparr>va_enabled = True, va_buffer = 6, va_size = 3\<rparr>],
       array_buffer = 6, vertex_array = 7, current_program = 0,
       clear_color = (float32 e 0.3, float32 e 0.3, float32 e 0.3, float32 e 1),
       should_close = False, keys = (\<lambda>k. Release), polls = 0, ticks = 0 \<rparr>"

text \<open>
  \<open>steady e w\<close>: the world \<open>w\<close> has the geometry and the clear colour of
  \<open>loop_entry e\<close>.  \<open>program_steady e w\<close>: it has the program of \<open>loop_entry e\<close>, up to the
  values of the uniforms.
\<close>

definition steady :: "env \<Rightarrow> world \<Rightarrow> bool" where
  "steady e w \<longleftrightarrow>
     vaos w = vaos (loop_entry e) \<and> buffers w = buffers (loop_entry e) \<and>
     clear_color w = clear_color (loop_entry e)"

definition program_steady :: "env \<Rightarrow> world \<Rightarrow> bool" where
  "program_steady e w \<longleftrightarrow>
     (case programs w 3 of
        None \<Rightarrow> False
      | Some pg \<Rightarrow> pg\<lparr>pg_uniforms := Map.empty\<rparr> = linked_program e)"

text \<open>How \<open>main\<close> ends, given how its loop ends.\<close>

definition finish :: "bool \<times> world \<Rightarrow> outcome \<times> world" where
  "finish r = (case r of (True, w6) \<Rightarrow> (Exited, glfw_Terminate w6) | (False, w6) \<Rightarrow> (StillLooping, w6))"

text \<open>What every draw of a run reads.\<close>

definition good_draw :: "env \<Rightarrow> draw \<Rightarrow> bool" where
  "good_draw e d \<longleftrightarrow>
     dr_mode d = TRIANGLES \<and> dr_first d = 0 \<and> dr_count d = 3 \<and>
     map_option va_size (dr_vao d) = Some 3 \<and>
     (dr_data d = Some (triangle (float32 e)) \<or> dr_data d = Some (triangleBg (float32 e)))"

text \<open>
  A run that reaches its loop: the libraries initialise and the driver accepts both
  shaders.  \<open>ourColor_at e l\<close>: the link succeeds and puts the uniform \<open>ourColor\<close> at
  the location \<open>l\<close>.
\<close>

definition initialises :: "env \<Rightarrow> bool" where
  "initialises e \<longleftrightarrow>
     glfw_init_error e = None \<and> create_window_error e = None \<and> gl_init_error e = None \<and>
     fst (glsl_compile e VERTEX_SHADER (cstr vertexShaderSource)) \<and>
     fst (glsl_compile e FRAGMENT_SHADER (cstr fragmentShaderSource))"

definition ourColor_at :: "env \<Rightarrow> int32 \<Rightarrow> bool" where
  "ourColor_at e l \<longleftrightarrow>
     (case glsl_link e [(VERTEX_SHADER, cstr vertexShaderSource),
                        (FRAGMENT_SHADER, cstr fragmentShaderSource)] of
        None \<Rightarrow> False
      | Some locs \<Rightarrow> map_of locs ''ourColor'' = Some l \<and> l \<noteq> -1)"

text \<open>
  What is seen of a draw: the vertex data it reads and the value of \<open>ourColor\<close> in the
  program it runs.  \<open>frame_draws e i\<close> names two such pairs: the background triangle
  with the first colour that \<open>frame\<close> computes from the \<open>i\<close>-th time sample, and the
  foreground triangle with the second.
\<close>

definition seen :: "draw \<Rightarrow> real list option \<times> vec4 option" where
  "seen d = (dr_data d, uniform_value d ''ourColor'')"

definition frame_draws :: "env \<Rightarrow> nat \<Rightarrow> (real list option \<times> vec4 option) list" where
  "frame_draws e i =
     [(Some (triangleBg (float32 e)),
       Some (float32 e (redValue (clock e i) / 1.5), float32 e (redValue (clock e i) / 2),
             float32 e 0, float32 e 1)),
      (Some (triangle (float32 e)),
       Some (float32 e (redValue (clock e i)), float32 e (redValue (clock e i)),
             float32 e 0, float32 e 1))]"

subsection \<open>The variant with a cached uniform location\<close>

text \<open>
  The design note of the specification: look the location of \<open>ourColor\<close> up once, after
  the link, and reuse it in every frame.  \<open>frame_cached\<close>, \<open>render_loop_cached\<close> and
  \<open>main_cached\<close> are \<open>frame\<close>, \<open>render_loop\<close> and \<open>main\<close> with this one change.
\<close>

definition frame_cached :: "env \<Rightarrow> uint32 \<Rightarrow> int32 \<Rightarrow> uint32 \<Rightarrow> uint32 \<Rightarrow> world \<Rightarrow> world" where
  "frame_cached e program ourColor vao vao2 w0 =
     (let (key, w1) = window_GetKey KeyEscape w0;
          w2 = (if key = 1 then window_SetShouldClose True w1 else w1);
          w3 = gl_Clear (COLOR_BUFFER_BIT OR DEPTH_BUFFER_BIT) w2;
          (timeValue, w4) = glfw_GetTime e w3;
          w5 = gl_UseProgram program w4;
          w6 = gl_BindVertexArray vao2 w5;
          w8 = gl_Uniform4f ourColor
                 (float32 e (redValue timeValue / 1.5)) (float32 e (redValue timeValue / 2))
                 (float32 e 0.0) (float32 e 1.0) w6;
          w9 = gl_DrawArrays TRIANGLES 0 (of_int (int (length (triangleBg (float32 e))) div 3)) w8;
          w11 = gl_Uniform4f ourColor
                  (float32 e (redValue timeValue)) (float32 e (redValue timeValue))
                  (float32 e 0.0) (float32 e 1.0) w9;
          w12 = gl_BindVertexArray vao w11;
          w13 = gl_DrawArrays TRIANGLES 0 (of_int (int (length (triangle (float32 e))) div 3)) w12;
          w14 = glfw_PollEvents e w13
      in window_SwapBuffers w14)"

fun render_loop_cached ::
    "env \<Rightarrow> uint32 \<Rightarrow> int32 \<Rightarrow> uint32 \<Rightarrow> uint32 \<Rightarrow> nat \<Rightarrow> world \<Rightarrow> bool \<times> world" where
  "render_loop_cached e program ourColor vao vao2 0 w = (False, w)"
| "render_loop_cached e program ourColor vao vao2 (Suc n) w =
     (case window_ShouldClose w of
        (True, w1) \<Rightarrow> (True, w1)
      | (False, w1) \<Rightarrow>
          render_loop_cached e program ourColor vao vao2 n
            (frame_cached e program ourColor vao vao2 w1))"

definition main_cached :: "env \<Rightarrow> nat \<Rightarrow> outcome \<times> world" where
  "main_cached e n =
     (case initGlfw e world0 of
        (Panic m, w1) \<Rightarrow> (Panicked m, w1)
      | (Ok window, w1) \<Rightarrow>
          (case initOpenGL e w1 of
             (Panic m, w2) \<Rightarrow> (Panicked m, w2)
           | (Ok program, w2) \<Rightarrow>
               (let (ourColor, w2a) = gl_GetUniformLocation program (cstr (''ourColor'' @ [NUL])) w2;
                    (vao, w3) = makeVao (triangle (float32 e)) w2a;
                    (vao2, w4) = makeVao (triangleBg (float32 e)) w3;
                    w5 = gl_ClearColor (float32 e 0.3) (float32 e 0.3) (float32 e 0.3) (float32 e 1.0) w4
                in case render_loop_cached e program ourColor vao vao2 n w5 of
                     (True, w6) \<Rightarrow> (Exited, glfw_Terminate w6)
                   | (False, w6) \<Rightarrow> (StillLooping, w6))))"

text \<open>A world with the lookups of uniform locations erased from its trace.\<close>

definition without_lookups :: "world \<Rightarrow> world" where
  "without_lookups w = w\<lparr>trace := filter (\<lambda>c. \<not> is_lookup c) (trace w)\<rparr>"

text \<open>Two worlds that differ in their traces only, and there only in lookups.\<close>

definition same_but_lookups :: "world \<Rightarrow> world \<Rightarrow> bool" where
  "same_but_lookups w w' \<longleftrightarrow>
     w = w'\<lparr>trace := trace w\<rparr> \<and>
     filter (\<lambda>c. \<not> is_lookup c) (trace w) = filter (\<lambda>c. \<not> is_lookup c) (trace w')"

subsection \<open>Four environments\<close>

text \<open>
  \<open>env_ok\<close>: everything succeeds, \<open>ourColor\<close> is at location 0, the clock answers 0 and
  then \<open>pi / 2\<close>, and the second poll finds the escape key pressed.  \<open>env_bad\<close>: the
  compiler rejects every source with the log \<open>bad\<close>.  \<open>env_silent\<close>: the compiler rejects
  every source and gives no log.  \<open>env_nolink\<close>: the linker fails.
\<close>

definition env_ok :: env where
  "env_ok = \<lparr> float32 = (\<lambda>x. x), glfw_init_error = None, create_window_error = None,
     gl_init_error = None, glsl_compile = (\<lambda>ty src. (True, [])),
     glsl_link = (\<lambda>stages. Some [(''ourColor'', 0)]),
     clock = (\<lambda>n. if n = 0 then 0 else pi / 2),
     input = (\<lambda>n. if n = 1 then [KeyEvent KeyEscape Press] else []) \<rparr>"

definition env_bad :: env where
  "env_bad = env_ok\<lparr>glsl_compile := (\<lambda>ty src. (False, ''bad''))\<rparr>"

definition env_silent :: env where
  "env_silent = env_ok\<lparr>glsl_compile := (\<lambda>ty src. (False, []))\<rparr>"

definition env_nolink :: env where
  "env_nolink = env_ok\<lparr>glsl_link := (\<lambda>stages. None)\<rparr>"

text \<open>The world at the entry of the loop of \<open>env_ok\<close>, with the escape key reported pressed.\<close>

definition esc_held :: world where
  "esc_held = (loop_entry env_ok)\<lparr>keys := (\<lambda>k. Release)(KeyEscape := Press)\<rparr>"

section \<open>Symbolic execution of the frame\<close>

lemmas call_defs = called_def glfw_Init_def glfw_WindowHint_def glfw_CreateWindow_def
  window_MakeContextCurrent_def window_ShouldClose_def window_SetShouldClose_def window_GetKey_def
  glfw_GetTime_def glfw_PollEvents_def window_SwapBuffers_def glfw_Terminate_def gl_Init_def
  gl_GetString_def gl_CreateShader_def gl_ShaderSource_def gl_CompileShader_def gl_GetShaderiv_def
  gl_GetShaderInfoLog_def gl_CreateProgram_def gl_AttachShader_def gl_LinkProgram_def
  gl_UseProgram_def gl_GetUniformLocation_def gl_Uniform4f_def gl_GenBuffers_def
  gl_BindBuffer_def gl_BufferData_def gl_GenVertexArrays_def gl_BindVertexArray_def
  gl_EnableVertexAttribArray_def gl_VertexAttribPointer_def gl_ClearColor_def gl_Clear_def
  gl_DrawArrays_def

lemma esc_upd:
  "(if key = (1::int) then window_SetShouldClose True w else w) =
     w\<lparr>trace := trace w @ (if key = 1 then [SetShouldClose True] else []),
       should_close := (key = 1 \<or> should_close w)\<rparr>"
  by (simp add: window_SetShouldClose_def called_def)

lemma cstr_ourColor:
  "cstr [CHR ''o'', CHR ''u'', CHR ''r'', CHR ''C'', CHR ''o'', CHR ''l'', CHR ''o'', CHR ''r'', NUL]
     = ''ourColor''"
  by (simp add: cstr_def NUL_def)

lemma counts:
  "of_int (int (length (triangle f)) div 3) = (3::32 word)"
  "of_int (int (length (triangleBg f)) div 3) = (3::32 word)"
  by (simp_all add: triangle_def triangleBg_def)

lemma frame_eq:
  "frame e p v v2 w =
     (let c = redValue (clock e (ticks w));
          cur = use_program (programs w) p (current_program w);
          l2 = uniform_location (programs w) p ''ourColor'';
          P1 = adjust cur (with_uniform l2
                 (float32 e (c / 1.5), float32 e (c / 2), float32 e 0, float32 e 1)) (programs w);
          l1 = uniform_location P1 p ''ourColor'';
          P2 = adjust cur (with_uniform l1 (float32 e c, float32 e c, float32 e 0, float32 e 1)) P1;
          V1 = bound_vao v2 (vaos w);
          V2 = bound_vao v V1;
          esc = (action_code (keys w KeyEscape) = 1);
          K = fold deliver (input e (polls w)) (keys w, esc \<or> should_close w)
      in w\<lparr>trace := trace w @ [GetKey KeyEscape] @ (if esc then [SetShouldClose True] else []) @
                [Clear (COLOR_BUFFER_BIT OR DEPTH_BUFFER_BIT), GetTime, UseProgram p,
                 BindVertexArray v2, GetUniformLocation p ''ourColor'',
                 Uniform4f l2 (float32 e (c / 1.5)) (float32 e (c / 2)) (float32 e 0) (float32 e 1),
                 DrawArrays TRIANGLES 0 3, GetUniformLocation p ''ourColor'',
                 Uniform4f l1 (float32 e c) (float32 e c) (float32 e 0) (float32 e 1),
                 BindVertexArray v, DrawArrays TRIANGLES 0 3, PollEvents, SwapBuffers],
            fb := fb w @
                [Cleared (COLOR_BUFFER_BIT OR DEPTH_BUFFER_BIT) (clear_color w),
                 Drew \<lparr>dr_mode = TRIANGLES, dr_first = 0, dr_count = 3, dr_program = P1 cur,
                        dr_vao = V1 v2, dr_data = vertex_data V1 (buffers w) v2\<rparr>,
                 Drew \<lparr>dr_mode = TRIANGLES, dr_first = 0, dr_count = 3, dr_program = P2 cur,
                        dr_vao = V2 v, dr_data = vertex_data V2 (buffers w) v\<rparr>,
                 Swapped],
            programs := P2, vaos := V2, vertex_array := v, current_program := cur,
            should_close := snd K, keys := fst K,
            polls := Suc (polls w), ticks := Suc (ticks w)\<rparr>)"
  unfolding frame_def
  apply (subst esc_upd)
  apply (simp add: call_defs Let_def cstr_ourColor counts split del: if_split)
  done

lemma adjust_apply: "adjust k f m k' = (if k' = k then map_option f (m k) else m k')"
  by (simp add: adjust_def split: option.splits)

lemma uniform_location_with_uniform [simp]:
  "uniform_location (adjust cur (with_uniform l u) P) p name = uniform_location P p name"
  by (simp add: uniform_location_def adjust_apply with_uniform_def split: option.splits)

lemma action_code_Press [simp]: "action_code a = 1 \<longleftrightarrow> a = Press"
  by (cases a) simp_all

lemma frame_trace:
  "trace (frame e p v v2 w) =
     trace w @ [GetKey KeyEscape] @
     (if keys w KeyEscape = Press then [SetShouldClose True] else []) @
     [Clear (COLOR_BUFFER_BIT OR DEPTH_BUFFER_BIT), GetTime, UseProgram p, BindVertexArray v2,
      GetUniformLocation p ''ourColor'',
      Uniform4f (uniform_location (programs w) p ''ourColor'')
        (float32 e (redValue (clock e (ticks w)) / 1.5)) (float32 e (redValue (clock e (ticks w)) / 2))
        (float32 e 0) (float32 e 1),
      DrawArrays TRIANGLES 0 3,
      GetUniformLocation p ''ourColor'',
      Uniform4f (uniform_location (programs w) p ''ourColor'')
        (float32 e (redValue (clock e (ticks w)))) (float32 e (redValue (clock e (ticks w))))
        (float32 e 0) (float32 e 1),
      BindVertexArray v, DrawArrays TRIANGLES 0 3, PollEvents, SwapBuffers]"
  by (simp add: frame_eq Let_def)

lemma frame_calls_eq:
  "frame_calls e p v v2 w =
     [GetKey KeyEscape] @
     (if keys w KeyEscape = Press then [SetShouldClose True] else []) @
     [Clear (COLOR_BUFFER_BIT OR DEPTH_BUFFER_BIT), GetTime, UseProgram p, BindVertexArray v2,
      GetUniformLocation p ''ourColor'',
      Uniform4f (uniform_location (programs w) p ''ourColor'')
        (float32 e (redValue (clock e (ticks w)) / 1.5)) (float32 e (redValue (clock e (ticks w)) / 2))
        (float32 e 0) (float32 e 1),
      DrawArrays TRIANGLES 0 3,
      GetUniformLocation p ''ourColor'',
      Uniform4f (uniform_location (programs w) p ''ourColor'')
        (float32 e (redValue (clock e (ticks w)))) (float32 e (redValue (clock e (ticks w))))
        (float32 e 0) (float32 e 1),
      BindVertexArray v, DrawArrays TRIANGLES 0 3, PollEvents, SwapBuffers]"
  unfolding frame_calls_def frame_trace by simp

lemma redValue_bounds: "0 \<le> redValue t" "redValue t \<le> 1"
proof -
  have "- 1 \<le> sin t" "sin t \<le> 1" by simp_all
  then show "0 \<le> redValue t" "redValue t \<le> 1"
    unfolding redValue_def by linarith+
qed

lemma uniform_writes_frame:
  "uniform_writes (frame_calls e p v v2 w) =
     [(uniform_location (programs w) p ''ourColor'',
       (float32 e (redValue (clock e (ticks w)) / 1.5), float32 e (redValue (clock e (ticks w)) / 2),
        float32 e 0, float32 e 1)),
      (uniform_location (programs w) p ''ourColor'',
       (float32 e (redValue (clock e (ticks w))), float32 e (redValue (clock e (ticks w))),
        float32 e 0, float32 e 1))]"
  by (simp add: frame_calls_eq)

section \<open>Symbolic execution of \<open>compileShader\<close>\<close>

lemma sint_of_nat_small:
  assumes "n < 2 ^ 31"
  shows "sint (word_of_nat n :: 32 word) = int n"
proof -
  have "signed_take_bit 31 (int n) = int n"
    by (rule signed_take_bit_int_eq_self) (use assms in simp_all)
  then show ?thesis by (simp add: signed_of_nat)
qed

lemma sint_log_length:
  assumes "n < 2 ^ 31 - 2"
  shows "sint (2 + word_of_nat n :: 32 word) = int n + 2"
    and "sint (1 + word_of_nat n :: 32 word) = int n + 1"
proof -
  have a: "2 + word_of_nat n = (word_of_nat (n + 2) :: 32 word)"
    and b: "1 + word_of_nat n = (word_of_nat (n + 1) :: 32 word)"
    by simp_all
  have "sint (word_of_nat (n + 2) :: 32 word) = int (n + 2)"
    by (rule sint_of_nat_small) (use assms in simp)
  then show "sint (2 + word_of_nat n :: 32 word) = int n + 2"
    unfolding a by simp
  have "sint (word_of_nat (n + 1) :: 32 word) = int (n + 1)"
    by (rule sint_of_nat_small) (use assms in simp)
  then show "sint (1 + word_of_nat n :: 32 word) = int n + 1"
    unfolding b by simp
qed

lemma drop_replicate_last: "drop n (x # replicate n x) = [x]"
proof -
  have "x # replicate n x = replicate n x @ [x]"
    by (simp add: replicate_append_same)
  then show ?thesis by simp
qed

lemma compileShader_ok:
  assumes "fst (glsl_compile e ty (cstr src))"
  shows "compileShader e src ty w =
     (Ok (names w + 1, None),
      w\<lparr>trace := trace w @ [CreateShader ty, ShaderSource (names w + 1) src,
                             CompileShader (names w + 1), GetShaderiv (names w + 1) COMPILE_STATUS],
        names := names w + 1,
        shaders := (shaders w)(names w + 1 \<mapsto>
           \<lparr>sh_type = ty, sh_source = cstr src, sh_status = True,
            sh_log = snd (glsl_compile e ty (cstr src))\<rparr>)\<rparr>)"
  using assms
  by (simp add: compileShader_def call_defs Let_def adjust_def compiled_def shader_param_def
      GL_TRUE_def GL_FALSE_def)

lemma compileShader_fail:
  assumes "\<not> fst (glsl_compile e ty (cstr src))"
    and "length (snd (glsl_compile e ty (cstr src))) < 2 ^ 31 - 2"
  shows "compileShader e src ty w =
     (Ok (0, Some (''failed to compile '' @ src @ '': '' @ log_buffer (snd (glsl_compile e ty (cstr src))))),
      w\<lparr>trace := trace w @ [CreateShader ty, ShaderSource (names w + 1) src,
                             CompileShader (names w + 1), GetShaderiv (names w + 1) COMPILE_STATUS,
                             GetShaderiv (names w + 1) INFO_LOG_LENGTH,
                             GetShaderInfoLog (names w + 1)
                               (if snd (glsl_compile e ty (cstr src)) = [] then 0
                                else of_nat (length (snd (glsl_compile e ty (cstr src))) + 1))],
        names := names w + 1,
        shaders := (shaders w)(names w + 1 \<mapsto>
           \<lparr>sh_type = ty, sh_source = cstr src, sh_status = False,
            sh_log = snd (glsl_compile e ty (cstr src))\<rparr>)\<rparr>)"
proof (cases "snd (glsl_compile e ty (cstr src)) = []")
  case True
  with assms(1) show ?thesis
    by (simp add: compileShader_def call_defs Let_def adjust_def compiled_def shader_param_def
        GL_TRUE_def GL_FALSE_def COMPILE_STATUS_def INFO_LOG_LENGTH_def
        strings_Repeat_def gl_Str_def written_log_def log_buffer_def)
next
  case False
  with assms(1) sint_log_length [OF assms(2)] show ?thesis
    by (simp add: compileShader_def call_defs Let_def adjust_def compiled_def shader_param_def
        GL_TRUE_def GL_FALSE_def COMPILE_STATUS_def INFO_LOG_LENGTH_def
        strings_Repeat_def gl_Str_def written_log_def log_buffer_def nat_add_distrib
        drop_replicate_last)
qed

lemma c_string_padded: "c_string (lg @ (if lg = [] then [NUL] else [NUL, NUL])) = c_string lg"
proof (cases "\<forall>c \<in> set lg. c \<noteq> NUL")
  case True
  then have t: "takeWhile (\<lambda>c. c \<noteq> NUL) lg = lg"
    by (simp add: takeWhile_eq_all_conv)
  show ?thesis
    by (simp add: c_string_def takeWhile_append True t)
next
  case False
  then show ?thesis
    by (auto simp add: c_string_def takeWhile_append)
qed


section \<open>The run of \<open>main\<close>\<close>

lemmas table_defs = adjust_def bound_vao_def stored_def attached_def enabled_def pointed_def
  bound_buffer_def linked_def attached_stages_def

lemma main_reaches_loop:
  assumes "glfw_init_error e = None" "create_window_error e = None" "gl_init_error e = None"
    and "fst (glsl_compile e VERTEX_SHADER (cstr vertexShaderSource))"
    and "fst (glsl_compile e FRAGMENT_SHADER (cstr fragmentShaderSource))"
  shows "main e n = finish (render_loop e 3 5 7 n (loop_entry e))"
  using assms
  apply (simp add: main_def initGlfw_def initOpenGL_def compileShader_ok makeVao_def
       Let_def call_defs world0_def finish_def split del: if_split)
  apply (simp add: table_defs loop_entry_def setup_calls_def linked_program_def
       triangle_def triangleBg_def ARRAY_BUFFER_def split: option.splits)
  done

lemma render_loop_invariant:
  assumes "I w"
    and "\<And>w. I w \<Longrightarrow> I (called ShouldClose w)"
    and "\<And>w. I w \<Longrightarrow> I (frame e p v v2 w)"
  shows "I (snd (render_loop e p v v2 n w))"
  using assms(1)
proof (induction n arbitrary: w)
  case 0
  then show ?case by simp
next
  case (Suc n)
  show ?case
  proof (cases "should_close w")
    case True
    with Suc.prems show ?thesis
      by (simp add: window_ShouldClose_def assms(2))
  next
    case False
    have "I (frame e p v v2 (called ShouldClose w))"
      by (intro assms(2) assms(3) Suc.prems)
    then have "I (snd (render_loop e p v v2 n (frame e p v v2 (called ShouldClose w))))"
      by (rule Suc.IH)
    with False show ?thesis
      by (simp add: window_ShouldClose_def)
  qed
qed

lemma steady_entry: "steady e (loop_entry e)"
  by (simp add: steady_def)

lemma steady_called: "steady e w \<Longrightarrow> steady e (called c w)"
  by (simp add: steady_def called_def)

lemma vaos_entry:
  "vaos (loop_entry e) = [5 \<mapsto> \<lparr>va_enabled = True, va_buffer = 4, va_size = 3\<rparr>,
                           7 \<mapsto> \<lparr>va_enabled = True, va_buffer = 6, va_size = 3\<rparr>]"
  "buffers (loop_entry e) = [4 \<mapsto> triangle (float32 e), 6 \<mapsto> triangleBg (float32 e)]"
  "clear_color (loop_entry e) = (float32 e 0.3, float32 e 0.3, float32 e 0.3, float32 e 1)"
  by (simp_all add: loop_entry_def)

lemma steady_frame: "steady e w \<Longrightarrow> steady e (frame e 3 5 7 w)"
  by (simp add: steady_def frame_eq Let_def vaos_entry bound_vao_def)

lemma frame_fb_steady:
  assumes "steady e w"
  shows "\<exists>pg2 pg1. fb (frame e 3 5 7 w) = fb w @
     [Cleared (COLOR_BUFFER_BIT OR DEPTH_BUFFER_BIT)
        (float32 e 0.3, float32 e 0.3, float32 e 0.3, float32 e 1),
      Drew \<lparr>dr_mode = TRIANGLES, dr_first = 0, dr_count = 3, dr_program = pg2,
             dr_vao = Some \<lparr>va_enabled = True, va_buffer = 6, va_size = 3\<rparr>,
             dr_data = Some (triangleBg (float32 e))\<rparr>,
      Drew \<lparr>dr_mode = TRIANGLES, dr_first = 0, dr_count = 3, dr_program = pg1,
             dr_vao = Some \<lparr>va_enabled = True, va_buffer = 4, va_size = 3\<rparr>,
             dr_data = Some (triangle (float32 e))\<rparr>,
      Swapped]"
  using assms
  by (simp add: steady_def frame_eq Let_def vaos_entry bound_vao_def vertex_data_def)


lemma compileShader_quiet:
  "filter uses_program (trace (snd (compileShader e src ty w))) = filter uses_program (trace w)"
  "fb (snd (compileShader e src ty w)) = fb w"
  by (simp_all add: compileShader_def call_defs Let_def split_def split: result.splits)

lemma compileShader_rejected:
  assumes "\<not> fst (glsl_compile e ty (cstr src))"
  shows "case fst (compileShader e src ty w) of Panic m \<Rightarrow> True | Ok x \<Rightarrow> snd x \<noteq> None"
  using assms
  by (simp add: compileShader_def call_defs Let_def split_def adjust_def compiled_def
        shader_param_def GL_TRUE_def GL_FALSE_def COMPILE_STATUS_def
        split: result.splits)


lemma initGlfw_quiet:
  "filter uses_program (trace (snd (initGlfw e w))) = filter uses_program (trace w)"
  "fb (snd (initGlfw e w)) = fb w"
  by (simp_all add: initGlfw_def call_defs Let_def split: option.splits)

lemma initOpenGL_quiet:
  "filter uses_program (trace (snd (initOpenGL e w))) = filter uses_program (trace w) \<and>
   fb (snd (initOpenGL e w)) = fb w"
proof (cases "gl_init_error e")
  case (Some err)
  then show ?thesis by (simp add: initOpenGL_def call_defs)
next
  case None
  let ?w2 = "gl_GetString GL_VERSION (called GlInit w)"
  obtain r w3 where v: "compileShader e vertexShaderSource VERTEX_SHADER ?w2 = (r, w3)"
    by force
  have q3: "filter uses_program (trace w3) = filter uses_program (trace w)" "fb w3 = fb w"
    using compileShader_quiet [of e vertexShaderSource VERTEX_SHADER ?w2] v
    by (simp_all add: call_defs)
  obtain r' w4 where f: "compileShader e fragmentShaderSource FRAGMENT_SHADER w3 = (r', w4)"
    by force
  have q4: "filter uses_program (trace w4) = filter uses_program (trace w)" "fb w4 = fb w"
    using compileShader_quiet [of e fragmentShaderSource FRAGMENT_SHADER w3] f q3
    by simp_all
  show ?thesis
    using None v f q3 q4
    by (simp add: initOpenGL_def gl_Init_def Let_def split: result.splits option.splits)
       (simp add: call_defs)
qed

lemma initOpenGL_rejected:
  assumes "\<not> fst (glsl_compile e VERTEX_SHADER (cstr vertexShaderSource)) \<or>
           \<not> fst (glsl_compile e FRAGMENT_SHADER (cstr fragmentShaderSource))"
  shows "\<exists>m. fst (initOpenGL e w) = Panic m"
proof (cases "gl_init_error e")
  case (Some err)
  then show ?thesis by (simp add: initOpenGL_def call_defs)
next
  case None
  let ?w2 = "gl_GetString GL_VERSION (called GlInit w)"
  show ?thesis
  proof (cases "fst (glsl_compile e VERTEX_SHADER (cstr vertexShaderSource))")
    case False
    from compileShader_rejected [OF this, of ?w2] None show ?thesis
      by (auto simp add: initOpenGL_def gl_Init_def Let_def split_def
            split: result.splits option.splits prod.splits)
  next
    case True
    with assms have nf: "\<not> fst (glsl_compile e FRAGMENT_SHADER (cstr fragmentShaderSource))"
      by simp
    have v: "fst (compileShader e vertexShaderSource VERTEX_SHADER ?w2) = Ok (names ?w2 + 1, None)"
      by (simp add: compileShader_ok [OF True])
    from compileShader_rejected
      [OF nf, of "snd (compileShader e vertexShaderSource VERTEX_SHADER ?w2)"] v None
    show ?thesis
      by (auto simp add: initOpenGL_def gl_Init_def Let_def split_def
            split: result.splits option.splits prod.splits)
  qed
qed

lemma main_panicked:
  assumes "fst (initGlfw e world0) = Panic m \<or>
           (fst (initGlfw e world0) = Ok () \<and> fst (initOpenGL e (snd (initGlfw e world0))) = Panic m)"
  shows "fst (main e n) = Panicked m \<and> fb (snd (main e n)) = [] \<and>
         filter uses_program (trace (snd (main e n))) = []"
proof -
  have g: "fb (snd (initGlfw e world0)) = []"
       "filter uses_program (trace (snd (initGlfw e world0))) = []"
    by (simp_all add: initGlfw_quiet world0_def)
  have o: "fb (snd (initOpenGL e (snd (initGlfw e world0)))) = []"
       "filter uses_program (trace (snd (initOpenGL e (snd (initGlfw e world0))))) = []"
    using initOpenGL_quiet [of e "snd (initGlfw e world0)"] g by simp_all
  show ?thesis
    using assms g o
    by (auto simp add: main_def split_def split: result.splits)
qed


lemma compileShader_ticks: "ticks (snd (compileShader e src ty w)) = ticks w"
  by (simp add: compileShader_def call_defs Let_def split_def split: result.splits)

lemma initGlfw_ticks: "ticks (snd (initGlfw e w)) = ticks w"
  by (simp add: initGlfw_def call_defs Let_def split: option.splits)

lemma initOpenGL_ticks: "ticks (snd (initOpenGL e w)) = ticks w"
  by (simp add: initOpenGL_def gl_Init_def Let_def split_def compileShader_ticks call_defs
      split: result.splits option.splits)

lemma main_panicked_ticks:
  assumes "fst (main e n) = Panicked m"
  shows "ticks (snd (main e n)) = 0"
proof -
  have g: "ticks (snd (initGlfw e world0)) = 0"
    by (simp add: initGlfw_ticks world0_def)
  have o: "ticks (snd (initOpenGL e (snd (initGlfw e world0)))) = 0"
    by (simp add: initOpenGL_ticks g)
  show ?thesis
    using assms g o
    by (auto simp add: main_def split_def Let_def split: result.splits bool.splits)
qed


lemma draws_append [simp]: "draws (xs @ ys) = draws xs @ draws ys"
  by (induction xs rule: draws.induct) simp_all

lemma clears_append [simp]: "clears (xs @ ys) = clears xs @ clears ys"
  by (induction xs rule: clears.induct) simp_all

lemma fb_terminate [simp]: "fb (snd (finish r)) = fb (snd r)"
  by (cases r) (simp add: finish_def glfw_Terminate_def called_def split: bool.splits)

text \<open>Every run either stops with a panic before it has drawn anything, or enters the loop.\<close>

lemma main_cases:
  obtains (panic) m where "fst (main e n) = Panicked m" "fb (snd (main e n)) = []"
      "filter uses_program (trace (snd (main e n))) = []"
  | (loop) "glfw_init_error e = None" "create_window_error e = None" "gl_init_error e = None"
      "fst (glsl_compile e VERTEX_SHADER (cstr vertexShaderSource))"
      "fst (glsl_compile e FRAGMENT_SHADER (cstr fragmentShaderSource))"
      "main e n = finish (render_loop e 3 5 7 n (loop_entry e))"
proof (cases "glfw_init_error e = None \<and> create_window_error e = None")
  case False
  then have "\<exists>m. fst (initGlfw e world0) = Panic m"
    by (auto simp add: initGlfw_def call_defs Let_def split: option.splits)
  then obtain m where "fst (initGlfw e world0) = Panic m" ..
  then show ?thesis using main_panicked [of e m n] panic by blast
next
  case True
  then have g: "fst (initGlfw e world0) = Ok ()"
    by (simp add: initGlfw_def call_defs Let_def)
  show ?thesis
  proof (cases "gl_init_error e = None \<and>
      fst (glsl_compile e VERTEX_SHADER (cstr vertexShaderSource)) \<and>
      fst (glsl_compile e FRAGMENT_SHADER (cstr fragmentShaderSource))")
    case True
    with \<open>glfw_init_error e = None \<and> create_window_error e = None\<close> show ?thesis
      using main_reaches_loop [of e n] loop by blast
  next
    case False
    have "\<exists>m. fst (initOpenGL e (snd (initGlfw e world0))) = Panic m"
    proof (cases "gl_init_error e")
      case (Some err)
      then show ?thesis by (simp add: initOpenGL_def call_defs)
    next
      case None
      with False show ?thesis by (intro initOpenGL_rejected) blast
    qed
    then obtain m where "fst (initOpenGL e (snd (initGlfw e world0))) = Panic m" ..
    with g show ?thesis using main_panicked [of e m n] panic by blast
  qed
qed

lemma main_draws: "list_all (good_draw e) (draws (fb (snd (main e n))))"
proof (cases rule: main_cases [of e n])
  case (panic m)
  then show ?thesis by simp
next
  case loop
  let ?I = "\<lambda>w. steady e w \<and> list_all (good_draw e) (draws (fb w))"
  have "?I (snd (render_loop e 3 5 7 n (loop_entry e)))"
  proof (rule render_loop_invariant)
    show "?I (loop_entry e)"
      by (simp add: steady_entry) (simp add: loop_entry_def)
  next
    fix w assume "?I w"
    then show "?I (called ShouldClose w)"
      by (simp add: steady_called) (simp add: called_def)
  next
    fix w assume i: "?I w"
    then obtain pg2 pg1 where "fb (frame e 3 5 7 w) = fb w @
     [Cleared (COLOR_BUFFER_BIT OR DEPTH_BUFFER_BIT)
        (float32 e 0.3, float32 e 0.3, float32 e 0.3, float32 e 1),
      Drew \<lparr>dr_mode = TRIANGLES, dr_first = 0, dr_count = 3, dr_program = pg2,
             dr_vao = Some \<lparr>va_enabled = True, va_buffer = 6, va_size = 3\<rparr>,
             dr_data = Some (triangleBg (float32 e))\<rparr>,
      Drew \<lparr>dr_mode = TRIANGLES, dr_first = 0, dr_count = 3, dr_program = pg1,
             dr_vao = Some \<lparr>va_enabled = True, va_buffer = 4, va_size = 3\<rparr>,
             dr_data = Some (triangle (float32 e))\<rparr>,
      Swapped]"
      using frame_fb_steady [of e w] by blast
    with i show "?I (frame e 3 5 7 w)"
      by (simp add: steady_frame good_draw_def)
  qed
  with loop(6) show ?thesis by simp
qed


section \<open>The four environments\<close>

lemma env_bad_simps [simp]:
  "glsl_compile env_bad ty src = (False, ''bad'')"
  "glfw_init_error env_bad = None" "create_window_error env_bad = None"
  "gl_init_error env_bad = None" "float32 env_bad = (\<lambda>x. x)"
  by (simp_all add: env_bad_def env_ok_def)

lemma env_silent_simps [simp]:
  "glsl_compile env_silent ty src = (False, [])"
  by (simp_all add: env_silent_def env_ok_def)

lemma env_ok_simps [simp]:
  "glsl_compile env_ok ty src = (True, [])"
  "glsl_link env_ok stages = Some [(''ourColor'', 0)]"
  "glfw_init_error env_ok = None" "create_window_error env_ok = None"
  "gl_init_error env_ok = None" "float32 env_ok = (\<lambda>x. x)"
  "clock env_ok n = (if n = 0 then 0 else pi / 2)"
  "input env_ok n = (if n = 1 then [KeyEvent KeyEscape Press] else [])"
  by (simp_all add: env_ok_def)

lemma env_nolink_simps [simp]:
  "glsl_compile env_nolink ty src = (True, [])"
  "glsl_link env_nolink stages = None"
  "glfw_init_error env_nolink = None" "create_window_error env_nolink = None"
  "gl_init_error env_nolink = None" "float32 env_nolink = (\<lambda>x. x)"
  "clock env_nolink n = (if n = 0 then 0 else pi / 2)"
  "input env_nolink n = (if n = 1 then [KeyEvent KeyEscape Press] else [])"
  by (simp_all add: env_nolink_def env_ok_def)

section \<open>Compile failure and the clear colour in a run\<close>

lemma compile_calls_ok:
  assumes "fst (glsl_compile e ty (cstr src))"
  shows "compile_calls e src ty w =
     [CreateShader ty, ShaderSource (names w + 1) src, CompileShader (names w + 1),
      GetShaderiv (names w + 1) COMPILE_STATUS]"
  by (simp add: compile_calls_def compileShader_ok [OF assms])

lemma compile_calls_fail:
  assumes "\<not> fst (glsl_compile e ty (cstr src))"
    and "length (snd (glsl_compile e ty (cstr src))) < 2 ^ 31 - 2"
  shows "compile_calls e src ty w =
     [CreateShader ty, ShaderSource (names w + 1) src, CompileShader (names w + 1),
      GetShaderiv (names w + 1) COMPILE_STATUS, GetShaderiv (names w + 1) INFO_LOG_LENGTH,
      GetShaderInfoLog (names w + 1)
        (if snd (glsl_compile e ty (cstr src)) = [] then 0
         else of_nat (length (snd (glsl_compile e ty (cstr src))) + 1))]"
  by (simp add: compile_calls_def compileShader_fail [OF assms])

lemma main_aborts:
  assumes "\<not> fst (glsl_compile e VERTEX_SHADER (cstr vertexShaderSource)) \<or>
           \<not> fst (glsl_compile e FRAGMENT_SHADER (cstr fragmentShaderSource))"
  shows "(\<exists>m. fst (main e n) = Panicked m) \<and> fb (snd (main e n)) = [] \<and>
         filter uses_program (trace (snd (main e n))) = []"
  using assms by (cases rule: main_cases [of e n]) auto

lemma main_clears:
  "list_all (\<lambda>c. c = (float32 e 0.3, float32 e 0.3, float32 e 0.3, float32 e 1))
     (clears (fb (snd (main e n))))"
proof (cases rule: main_cases [of e n])
  case (panic m)
  then show ?thesis by simp
next
  case loop
  let ?c = "(float32 e 0.3, float32 e 0.3, float32 e 0.3, float32 e 1)"
  let ?I = "\<lambda>w. steady e w \<and> list_all (\<lambda>c. c = ?c) (clears (fb w))"
  have "?I (snd (render_loop e 3 5 7 n (loop_entry e)))"
  proof (rule render_loop_invariant)
    show "?I (loop_entry e)"
      by (simp add: steady_entry) (simp add: loop_entry_def)
  next
    fix w assume "?I w"
    then show "?I (called ShouldClose w)"
      by (simp add: steady_called) (simp add: called_def)
  next
    fix w assume i: "?I w"
    then obtain pg2 pg1 where "fb (frame e 3 5 7 w) = fb w @
     [Cleared (COLOR_BUFFER_BIT OR DEPTH_BUFFER_BIT)
        (float32 e 0.3, float32 e 0.3, float32 e 0.3, float32 e 1),
      Drew \<lparr>dr_mode = TRIANGLES, dr_first = 0, dr_count = 3, dr_program = pg2,
             dr_vao = Some \<lparr>va_enabled = True, va_buffer = 6, va_size = 3\<rparr>,
             dr_data = Some (triangleBg (float32 e))\<rparr>,
      Drew \<lparr>dr_mode = TRIANGLES, dr_first = 0, dr_count = 3, dr_program = pg1,
             dr_vao = Some \<lparr>va_enabled = True, va_buffer = 4, va_size = 3\<rparr>,
             dr_data = Some (triangle (float32 e))\<rparr>,
      Swapped]"
      using frame_fb_steady [of e w] by blast
    with i show "?I (frame e 3 5 7 w)"
      by (simp add: steady_frame)
  qed
  with loop(6) show ?thesis by simp
qed

section \<open>The close flag\<close>

lemma fold_deliver_close:
  "snd (fold deliver evs (ks, sc)) \<longleftrightarrow> sc \<or> CloseRequest \<in> set evs"
proof (induction evs arbitrary: ks sc)
  case Nil
  show ?case by simp
next
  case (Cons ev evs)
  show ?case
  proof (cases ev)
    case (KeyEvent k a)
    then show ?thesis by (cases a) (simp_all add: Cons.IH)
  next
    case CloseRequest
    then show ?thesis by (simp add: Cons.IH)
  qed
qed

lemma frame_should_close:
  "should_close (frame e p v v2 w) \<longleftrightarrow>
     should_close w \<or> keys w KeyEscape = Press \<or> CloseRequest \<in> set (input e (polls w))"
  by (auto simp add: frame_eq Let_def fold_deliver_close)

lemma frame_counters:
  "polls (frame e p v v2 w) = Suc (polls w)"
  "ticks (frame e p v v2 w) = Suc (ticks w)"
  "keys (frame e p v v2 w) =
     fst (fold deliver (input e (polls w)) (keys w, keys w KeyEscape = Press \<or> should_close w))"
  by (simp_all add: frame_eq Let_def)

lemma render_loop_step:
  "render_loop e p v v2 (Suc n) w =
     (if should_close w then (True, called ShouldClose w)
      else render_loop e p v v2 n (frame e p v v2 (called ShouldClose w)))"
  by (simp add: window_ShouldClose_def)

lemma called_fields [simp]:
  "should_close (called c w) = should_close w" "keys (called c w) = keys w"
  "polls (called c w) = polls w" "ticks (called c w) = ticks w" "fb (called c w) = fb w"
  "programs (called c w) = programs w" "trace (called c w) = trace w @ [c]"
  by (simp_all add: called_def)

section \<open>The cached location\<close>

lemma frame_cached_eq:
  "frame_cached e p l v v2 w =
     (let c = redValue (clock e (ticks w));
          cur = use_program (programs w) p (current_program w);
          P1 = adjust cur (with_uniform l
                 (float32 e (c / 1.5), float32 e (c / 2), float32 e 0, float32 e 1)) (programs w);
          P2 = adjust cur (with_uniform l (float32 e c, float32 e c, float32 e 0, float32 e 1)) P1;
          V1 = bound_vao v2 (vaos w);
          V2 = bound_vao v V1;
          esc = (action_code (keys w KeyEscape) = 1);
          K = fold deliver (input e (polls w)) (keys w, esc \<or> should_close w)
      in w\<lparr>trace := trace w @ [GetKey KeyEscape] @ (if esc then [SetShouldClose True] else []) @
                [Clear (COLOR_BUFFER_BIT OR DEPTH_BUFFER_BIT), GetTime, UseProgram p,
                 BindVertexArray v2,
                 Uniform4f l (float32 e (c / 1.5)) (float32 e (c / 2)) (float32 e 0) (float32 e 1),
                 DrawArrays TRIANGLES 0 3,
                 Uniform4f l (float32 e c) (float32 e c) (float32 e 0) (float32 e 1),
                 BindVertexArray v, DrawArrays TRIANGLES 0 3, PollEvents, SwapBuffers],
            fb := fb w @
                [Cleared (COLOR_BUFFER_BIT OR DEPTH_BUFFER_BIT) (clear_color w),
                 Drew \<lparr>dr_mode = TRIANGLES, dr_first = 0, dr_count = 3, dr_program = P1 cur,
                        dr_vao = V1 v2, dr_data = vertex_data V1 (buffers w) v2\<rparr>,
                 Drew \<lparr>dr_mode = TRIANGLES, dr_first = 0, dr_count = 3, dr_program = P2 cur,
                        dr_vao = V2 v, dr_data = vertex_data V2 (buffers w) v\<rparr>,
                 Swapped],
            programs := P2, vaos := V2, vertex_array := v, current_program := cur,
            should_close := snd K, keys := fst K,
            polls := Suc (polls w), ticks := Suc (ticks w)\<rparr>)"
  unfolding frame_cached_def
  apply (subst esc_upd)
  apply (simp add: call_defs Let_def counts split del: if_split)
  done

lemma same_but_lookups_iff: "without_lookups w = without_lookups w' \<longleftrightarrow> same_but_lookups w w'"
proof
  assume eq: "without_lookups w = without_lookups w'"
  have sel: "f (without_lookups w) = f (without_lookups w')" for f :: "world \<Rightarrow> 'a"
    using eq by simp
  have "w = w'\<lparr>trace := trace w\<rparr>"
    using sel [of fb] sel [of names] sel [of shaders] sel [of programs] sel [of buffers]
      sel [of vaos] sel [of array_buffer] sel [of vertex_array] sel [of current_program]
      sel [of clear_color] sel [of should_close] sel [of keys] sel [of polls] sel [of ticks]
    by (intro world.equality) (simp_all add: without_lookups_def)
  moreover have "filter (\<lambda>c. \<not> is_lookup c) (trace w) = filter (\<lambda>c. \<not> is_lookup c) (trace w')"
    using sel [of trace] by (simp add: without_lookups_def)
  ultimately show "same_but_lookups w w'"
    by (simp add: same_but_lookups_def)
next
  assume "same_but_lookups w w'"
  then have a: "w = w'\<lparr>trace := trace w\<rparr>"
    and b: "filter (\<lambda>c. \<not> is_lookup c) (trace w) = filter (\<lambda>c. \<not> is_lookup c) (trace w')"
    by (simp_all add: same_but_lookups_def)
  show "without_lookups w = without_lookups w'"
    by (subst a) (simp add: without_lookups_def b)
qed

lemma same_frame:
  assumes "same_but_lookups w w'"
  shows "same_but_lookups (frame_cached e p (uniform_location (programs w') p ''ourColor'') v v2 w)
           (frame e p v v2 w')"
proof -
  from assms obtain t where w: "w = w'\<lparr>trace := t\<rparr>"
    and t: "filter (\<lambda>c. \<not> is_lookup c) t = filter (\<lambda>c. \<not> is_lookup c) (trace w')"
    unfolding same_but_lookups_def by metis
  show ?thesis
    unfolding w same_but_lookups_def
    by (simp add: frame_eq frame_cached_eq Let_def t)
qed

lemma same_fields:
  assumes "same_but_lookups w w'"
  shows "should_close w = should_close w'" "programs w = programs w'" "names w = names w'"
proof -
  from assms have "w = w'\<lparr>trace := trace w\<rparr>" by (simp add: same_but_lookups_def)
  then have "should_close w = should_close (w'\<lparr>trace := trace w\<rparr>)"
    "programs w = programs (w'\<lparr>trace := trace w\<rparr>)" "names w = names (w'\<lparr>trace := trace w\<rparr>)"
    by simp_all
  then show "should_close w = should_close w'" "programs w = programs w'" "names w = names w'"
    by simp_all
qed

lemma same_step:
  assumes "same_but_lookups w w'"
    and "\<And>t. f (w'\<lparr>trace := t\<rparr>) = (f w')\<lparr>trace := t @ drop (length (trace w')) (trace (f w'))\<rparr>"
    and "take (length (trace w')) (trace (f w')) = trace w'"
  shows "same_but_lookups (f w) (f w')"
proof -
  from assms(1) obtain t where w: "w = w'\<lparr>trace := t\<rparr>"
    and t: "filter (\<lambda>c. \<not> is_lookup c) t = filter (\<lambda>c. \<not> is_lookup c) (trace w')"
    unfolding same_but_lookups_def by metis
  have split: "trace (f w') = trace w' @ drop (length (trace w')) (trace (f w'))"
    using assms(3) by (metis append_take_drop_id)
  have "filter (\<lambda>c. \<not> is_lookup c) (trace (f w')) =
        filter (\<lambda>c. \<not> is_lookup c) (t @ drop (length (trace w')) (trace (f w')))"
    by (subst split) (simp add: t)
  then show ?thesis
    unfolding w same_but_lookups_def assms(2) by simp
qed

lemma same_called: "same_but_lookups w w' \<Longrightarrow> same_but_lookups (called c w) (called c w')"
  by (rule same_step) (simp_all add: called_def)

lemma makeVao_eq:
  "makeVao pts w =
     (names w + 1 + 1,
      w\<lparr>trace := trace w @
           [GenBuffers, BindBuffer ARRAY_BUFFER (names w + 1),
            BufferData ARRAY_BUFFER (4 * int (length pts)) pts STATIC_DRAW,
            GenVertexArrays, BindVertexArray (names w + 1 + 1), EnableVertexAttribArray 0,
            BindBuffer ARRAY_BUFFER (names w + 1), VertexAttribPointer 0 3 GL_FLOAT False 0],
         names := names w + 1 + 1,
         buffers := stored ARRAY_BUFFER (names w + 1) (4 * int (length pts)) pts (buffers w),
         vaos := adjust (names w + 1 + 1) (pointed 0 3 (names w + 1))
                   (adjust (names w + 1 + 1) (enabled 0) (bound_vao (names w + 1 + 1) (vaos w))),
         array_buffer := names w + 1, vertex_array := names w + 1 + 1\<rparr>)"
  by (simp add: makeVao_def call_defs Let_def bound_buffer_def)

lemma same_makeVao:
  assumes "same_but_lookups w w'"
  shows "fst (makeVao pts w) = fst (makeVao pts w') \<and>
         same_but_lookups (snd (makeVao pts w)) (snd (makeVao pts w')) \<and>
         programs (snd (makeVao pts w')) = programs w'"
proof -
  have "same_but_lookups (snd (makeVao pts w)) (snd (makeVao pts w'))"
    by (rule same_step [OF assms]) (simp_all add: makeVao_eq)
  then show ?thesis
    using same_fields(3) [OF assms] by (simp add: makeVao_eq)
qed

lemma same_ClearColor:
  "same_but_lookups w w' \<Longrightarrow> same_but_lookups (gl_ClearColor r g b a w) (gl_ClearColor r g b a w')"
  by (rule same_step) (simp_all add: gl_ClearColor_def called_def)

lemma same_Terminate:
  "same_but_lookups w w' \<Longrightarrow> same_but_lookups (glfw_Terminate w) (glfw_Terminate w')"
  by (rule same_step) (simp_all add: glfw_Terminate_def called_def)

lemma frame_location [simp]:
  "uniform_location (programs (frame e p v v2 w)) q name = uniform_location (programs w) q name"
  by (simp add: frame_eq Let_def)

lemma same_loop:
  assumes "same_but_lookups w w'"
  shows "fst (render_loop_cached e p (uniform_location (programs w') p ''ourColor'') v v2 n w) =
           fst (render_loop e p v v2 n w') \<and>
         same_but_lookups
           (snd (render_loop_cached e p (uniform_location (programs w') p ''ourColor'') v v2 n w))
           (snd (render_loop e p v v2 n w'))"
  using assms
proof (induction n arbitrary: w w')
  case 0
  then show ?case by simp
next
  case (Suc n)
  let ?l = "uniform_location (programs w') p ''ourColor''"
  have sc: "should_close w = should_close w'"
    by (rule same_fields(1) [OF Suc.prems])
  show ?case
  proof (cases "should_close w'")
    case True
    with sc Suc.prems show ?thesis
      by (simp add: window_ShouldClose_def same_called)
  next
    case False
    have c: "same_but_lookups (called ShouldClose w) (called ShouldClose w')"
      by (rule same_called [OF Suc.prems])
    have f: "same_but_lookups (frame_cached e p ?l v v2 (called ShouldClose w))
               (frame e p v v2 (called ShouldClose w'))"
      using same_frame [OF c, of e p v v2] by simp
    from Suc.IH [OF f] False sc show ?thesis
      by (simp add: window_ShouldClose_def)
  qed
qed

lemma finish_alt:
  "finish r = (if fst r then (Exited, glfw_Terminate (snd r)) else (StillLooping, snd r))"
  by (cases r) (simp add: finish_def split: bool.splits)

lemma same_refl: "same_but_lookups w w"
  by (simp add: same_but_lookups_def)

lemma same_main:
  "fst (main_cached e n) = fst (main e n) \<and>
   same_but_lookups (snd (main_cached e n)) (snd (main e n))"
proof (cases "initGlfw e world0")
  case (Pair r1 w1)
  show ?thesis
  proof (cases r1)
    case (Panic m)
    with Pair show ?thesis by (simp add: main_def main_cached_def same_refl)
  next
    case (Ok window)
    show ?thesis
    proof (cases "initOpenGL e w1")
      case (Pair r2 w2)
      show ?thesis
      proof (cases r2)
        case (Panic m)
        with Pair Ok \<open>initGlfw e world0 = (r1, w1)\<close> show ?thesis
          by (simp add: main_def main_cached_def same_refl)
      next
        case (Ok program)
        let ?l = "uniform_location (programs w2) program ''ourColor''"
        let ?w2a = "called (GetUniformLocation program ''ourColor'') w2"
        let ?f = "float32 e"
        have a: "same_but_lookups ?w2a w2"
          by (simp add: same_but_lookups_def called_def)
        note m1 = same_makeVao [OF a, of "triangle ?f"]
        note m2 = same_makeVao [OF conjunct1 [OF conjunct2 [OF m1]], of "triangleBg ?f"]
        let ?w4c = "snd (makeVao (triangleBg ?f) (snd (makeVao (triangle ?f) ?w2a)))"
        let ?w4 = "snd (makeVao (triangleBg ?f) (snd (makeVao (triangle ?f) w2)))"
        let ?w5c = "gl_ClearColor (?f 0.3) (?f 0.3) (?f 0.3) (?f 1.0) ?w4c"
        let ?w5 = "gl_ClearColor (?f 0.3) (?f 0.3) (?f 0.3) (?f 1.0) ?w4"
        have s5: "same_but_lookups ?w5c ?w5"
          by (rule same_ClearColor) (use m2 in simp)
        have p5: "programs ?w5 = programs w2"
          using m1 m2 by (simp add: gl_ClearColor_def called_def)
        let ?vao = "fst (makeVao (triangle ?f) w2)"
        let ?vao2 = "fst (makeVao (triangleBg ?f) (snd (makeVao (triangle ?f) w2)))"
        have l: "fst (render_loop_cached e program ?l ?vao ?vao2 n ?w5c) =
                   fst (render_loop e program ?vao ?vao2 n ?w5) \<and>
                 same_but_lookups (snd (render_loop_cached e program ?l ?vao ?vao2 n ?w5c))
                   (snd (render_loop e program ?vao ?vao2 n ?w5))"
          using same_loop [OF s5, of e program ?vao ?vao2 n] p5 by simp
        have mc: "main_cached e n =
            finish (render_loop_cached e program ?l ?vao ?vao2 n ?w5c)"
          using \<open>initGlfw e world0 = (r1, w1)\<close> \<open>r1 = Ok window\<close> Pair Ok m1 m2
          by (simp add: main_cached_def gl_GetUniformLocation_def cstr_ourColor split_def Let_def
                finish_alt split: bool.splits)
        have mm: "main e n = finish (render_loop e program ?vao ?vao2 n ?w5)"
          using \<open>initGlfw e world0 = (r1, w1)\<close> \<open>r1 = Ok window\<close> Pair Ok
          by (simp add: main_def split_def Let_def finish_alt split: bool.splits)
        show ?thesis
          unfolding mc mm using l
          by (simp add: finish_alt same_Terminate)
      qed
    qed
  qed
qed

section \<open>The colours of a run\<close>

lemma program_steady_entry: "program_steady e (loop_entry e)"
  by (simp add: program_steady_def loop_entry_def linked_program_def split: option.splits)

lemma program_steady_called: "program_steady e w \<Longrightarrow> program_steady e (called c w)"
  by (simp add: program_steady_def)

lemma frame_linked:
  assumes s: "steady e w" and p: "program_steady e w" and l: "ourColor_at e l"
  shows "map seen (draws (fb (frame e 3 5 7 w))) = map seen (draws (fb w)) @ frame_draws e (ticks w)"
    and "program_steady e (frame e 3 5 7 w)"
proof -
  from l obtain locs where
    link: "glsl_link e [(VERTEX_SHADER, cstr vertexShaderSource),
                        (FRAGMENT_SHADER, cstr fragmentShaderSource)] = Some locs"
    and loc: "map_of locs ''ourColor'' = Some l" and l1: "l \<noteq> -1"
    by (auto simp add: ourColor_at_def split: option.splits)
  have lp: "linked_program e =
      \<lparr>pg_shaders = [1, 2], pg_link = Some True, pg_locations = locs, pg_uniforms = Map.empty\<rparr>"
    by (simp add: linked_program_def link)
  from p obtain pg where pg: "programs w 3 = Some pg"
    and pg0: "pg\<lparr>pg_uniforms := Map.empty\<rparr> = linked_program e"
    by (auto simp add: program_steady_def split: option.splits)
  have "pg_link (pg\<lparr>pg_uniforms := Map.empty\<rparr>) = Some True"
    "pg_locations (pg\<lparr>pg_uniforms := Map.empty\<rparr>) = locs"
    unfolding pg0 lp by simp_all
  then have f: "pg_link pg = Some True" "pg_locations pg = locs"
    by simp_all
  have mem: "l \<in> snd ` set locs"
    using map_of_SomeD [OF loc] by force
  have cur: "use_program (programs w) 3 (current_program w) = 3"
    by (simp add: use_program_def pg f)
  have ul: "uniform_location (programs w) 3 ''ourColor'' = l"
    by (simp add: uniform_location_def pg f loc)
  have wu: "with_uniform l u q = q\<lparr>pg_uniforms := (pg_uniforms q)(l \<mapsto> u)\<rparr>"
    if "pg_link q = Some True" "pg_locations q = locs" for u q
    using that l1 mem by (simp add: with_uniform_def)
  have geo: "bound_vao 7 (vaos w) = vaos w" "bound_vao 5 (vaos w) = vaos w"
    "vertex_data (vaos w) (buffers w) 7 = Some (triangleBg (float32 e))"
    "vertex_data (vaos w) (buffers w) 5 = Some (triangle (float32 e))"
    using s by (simp_all add: steady_def vaos_entry bound_vao_def vertex_data_def)
  show "map seen (draws (fb (frame e 3 5 7 w))) = map seen (draws (fb w)) @ frame_draws e (ticks w)"
    by (simp add: frame_eq Let_def cur ul geo adjust_apply pg wu f seen_def uniform_value_def loc
          frame_draws_def)
  show "program_steady e (frame e 3 5 7 w)"
    using pg0 by (simp add: frame_eq Let_def cur ul adjust_apply pg wu f program_steady_def)
qed

lemma upt_Suc_map: "concat (map f [0..<Suc k]) = concat (map f [0..<k]) @ f k"
  by simp

lemma main_seen:
  assumes i: "initialises e" and l: "ourColor_at e l"
  shows "map seen (draws (fb (snd (main e n)))) =
           concat (map (frame_draws e) [0..<ticks (snd (main e n))])"
proof -
  let ?I = "\<lambda>w. steady e w \<and> program_steady e w \<and>
     map seen (draws (fb w)) = concat (map (frame_draws e) [0..<ticks w])"
  have "?I (snd (render_loop e 3 5 7 n (loop_entry e)))"
  proof (rule render_loop_invariant)
    show "?I (loop_entry e)"
      by (simp add: steady_entry program_steady_entry) (simp add: loop_entry_def)
  next
    fix w assume "?I w"
    then show "?I (called ShouldClose w)"
      by (simp add: steady_called program_steady_called)
  next
    fix w assume "?I w"
    then show "?I (frame e 3 5 7 w)"
      using frame_linked [of e w l] l
      by (simp add: steady_frame frame_counters)
  qed
  moreover have "main e n = finish (render_loop e 3 5 7 n (loop_entry e))"
    using i by (intro main_reaches_loop) (simp_all add: initialises_def)
  ultimately show ?thesis
    by (simp add: finish_alt glfw_Terminate_def)
qed

lemma concat_replicate_Suc: "concat (replicate (Suc k) xs) = concat (replicate k xs) @ xs"
  by (induction k) simp_all

lemma main_geometry:
  "map dr_data (draws (fb (snd (main e n)))) =
     concat (replicate (ticks (snd (main e n)))
       [Some (triangleBg (float32 e)), Some (triangle (float32 e))])"
proof (cases rule: main_cases [of e n])
  case (panic m)
  then show ?thesis by (simp add: main_panicked_ticks)
next
  case loop
  let ?I = "\<lambda>w. steady e w \<and> map dr_data (draws (fb w)) =
     concat (replicate (ticks w) [Some (triangleBg (float32 e)), Some (triangle (float32 e))])"
  have "?I (snd (render_loop e 3 5 7 n (loop_entry e)))"
  proof (rule render_loop_invariant)
    show "?I (loop_entry e)"
      by (simp add: steady_entry) (simp add: loop_entry_def)
  next
    fix w assume "?I w"
    then show "?I (called ShouldClose w)"
      by (simp add: steady_called)
  next
    fix w assume i: "?I w"
    then obtain pg2 pg1 where "fb (frame e 3 5 7 w) = fb w @
     [Cleared (COLOR_BUFFER_BIT OR DEPTH_BUFFER_BIT)
        (float32 e 0.3, float32 e 0.3, float32 e 0.3, float32 e 1),
      Drew \<lparr>dr_mode = TRIANGLES, dr_first = 0, dr_count = 3, dr_program = pg2,
             dr_vao = Some \<lparr>va_enabled = True, va_buffer = 6, va_size = 3\<rparr>,
             dr_data = Some (triangleBg (float32 e))\<rparr>,
      Drew \<lparr>dr_mode = TRIANGLES, dr_first = 0, dr_count = 3, dr_program = pg1,
             dr_vao = Some \<lparr>va_enabled = True, va_buffer = 4, va_size = 3\<rparr>,
             dr_data = Some (triangle (float32 e))\<rparr>,
      Swapped]"
      using frame_fb_steady [of e w] by blast
    with i show "?I (frame e 3 5 7 w)"
      by (simp add: steady_frame frame_counters concat_replicate_Suc del: replicate_Suc)
  qed
  with loop(6) show ?thesis
    by (simp add: finish_alt glfw_Terminate_def)
qed

lemma main_seen_located:
  assumes l: "ourColor_at e l"
  shows "map seen (draws (fb (snd (main e n)))) =
           concat (map (frame_draws e) [0..<ticks (snd (main e n))])"
proof (cases rule: main_cases [of e n])
  case (panic m)
  then show ?thesis by (simp add: main_panicked_ticks)
next
  case loop
  then have "initialises e" by (simp add: initialises_def)
  then show ?thesis using l by (rule main_seen)
qed

lemma two_frames_of_env_ok:
  "main env_ok (Suc (Suc 0)) =
     (StillLooping,
      frame env_ok 3 5 7 (called ShouldClose
        (frame env_ok 3 5 7 (called ShouldClose (loop_entry env_ok)))))"
proof -
  have a: "\<not> should_close (loop_entry env_ok)" "keys (loop_entry env_ok) = (\<lambda>k. Release)"
    "polls (loop_entry env_ok) = 0"
    by (simp_all add: loop_entry_def)
  have "main env_ok (Suc (Suc 0)) = finish (render_loop env_ok 3 5 7 (Suc (Suc 0)) (loop_entry env_ok))"
    by (rule main_reaches_loop) simp_all
  then show ?thesis
    by (simp add: render_loop_step frame_should_close frame_counters a finish_alt
          del: render_loop.simps(2))
qed

section \<open>The claims\<close>

text \<open>
  C1.  In every frame, whatever the world it starts in, with \<open>c = sin t / 2 + 0.5\<close> for
  the time sample \<open>t\<close> of the frame, the calls that bind a vertex array, look a uniform
  up, write a uniform or draw are, in this order: bind the vertex array of the
  background, look \<open>ourColor\<close> up, write \<open>(c / 1.5, c / 2, 0, 1)\<close> to the location found,
  draw three vertices; look \<open>ourColor\<close> up again, write \<open>(c, c, 0, 1)\<close> to the location
  found, bind the vertex array of the foreground, draw three vertices.  Each component
  is converted to \<open>float32\<close>.  In every run the draws read, frame by frame, the
  background triangle and then the foreground triangle.  When the link has put
  \<open>ourColor\<close> at a location, the program that each draw runs holds the value written
  before it, the first value at the background draw and the second at the foreground
  draw; the \<open>i\<close>-th frame has the \<open>i\<close>-th time sample.
\<close>

theorem colours_per_draw:
  "filter (\<lambda>c. is_bind c \<or> is_lookup c \<or> is_write c \<or> is_draw c)
       (frame_calls e program vao vao2 w) =
     [BindVertexArray vao2,
      GetUniformLocation program ''ourColor'',
      Uniform4f (uniform_location (programs w) program ''ourColor'')
        (float32 e (redValue (clock e (ticks w)) / 1.5)) (float32 e (redValue (clock e (ticks w)) / 2))
        (float32 e 0) (float32 e 1),
      DrawArrays TRIANGLES 0 3,
      GetUniformLocation program ''ourColor'',
      Uniform4f (uniform_location (programs w) program ''ourColor'')
        (float32 e (redValue (clock e (ticks w)))) (float32 e (redValue (clock e (ticks w))))
        (float32 e 0) (float32 e 1),
      BindVertexArray vao,
      DrawArrays TRIANGLES 0 3] \<and>
   map dr_data (draws (fb (snd (main e n)))) =
     concat (replicate (ticks (snd (main e n)))
       [Some (triangleBg (float32 e)), Some (triangle (float32 e))]) \<and>
   (ourColor_at e l \<longrightarrow>
      map (\<lambda>d. (dr_data d, uniform_value d ''ourColor'')) (draws (fb (snd (main e n)))) =
        concat (map (\<lambda>i.
          [(Some (triangleBg (float32 e)),
            Some (float32 e (redValue (clock e i) / 1.5), float32 e (redValue (clock e i) / 2),
                  float32 e 0, float32 e 1)),
           (Some (triangle (float32 e)),
            Some (float32 e (redValue (clock e i)), float32 e (redValue (clock e i)),
                  float32 e 0, float32 e 1))])
          [0..<ticks (snd (main e n))]))"
proof -
  have "map seen = map (\<lambda>d. (dr_data d, uniform_value d ''ourColor''))"
    by (simp add: seen_def [abs_def])
  moreover have "frame_draws e = (\<lambda>i.
          [(Some (triangleBg (float32 e)),
            Some (float32 e (redValue (clock e i) / 1.5), float32 e (redValue (clock e i) / 2),
                  float32 e 0, float32 e 1)),
           (Some (triangle (float32 e)),
            Some (float32 e (redValue (clock e i)), float32 e (redValue (clock e i)),
                  float32 e 0, float32 e 1))])"
    by (simp add: frame_draws_def [abs_def])
  ultimately have c: "ourColor_at e l \<longrightarrow>
      map (\<lambda>d. (dr_data d, uniform_value d ''ourColor'')) (draws (fb (snd (main e n)))) =
        concat (map (\<lambda>i.
          [(Some (triangleBg (float32 e)),
            Some (float32 e (redValue (clock e i) / 1.5), float32 e (redValue (clock e i) / 2),
                  float32 e 0, float32 e 1)),
           (Some (triangle (float32 e)),
            Some (float32 e (redValue (clock e i)), float32 e (redValue (clock e i)),
                  float32 e 0, float32 e 1))])
          [0..<ticks (snd (main e n))])"
    using main_seen_located [of e l n] by (simp del: upt_Suc)
  have a: "filter (\<lambda>c. is_bind c \<or> is_lookup c \<or> is_write c \<or> is_draw c)
       (frame_calls e program vao vao2 w) =
     [BindVertexArray vao2,
      GetUniformLocation program ''ourColor'',
      Uniform4f (uniform_location (programs w) program ''ourColor'')
        (float32 e (redValue (clock e (ticks w)) / 1.5)) (float32 e (redValue (clock e (ticks w)) / 2))
        (float32 e 0) (float32 e 1),
      DrawArrays TRIANGLES 0 3,
      GetUniformLocation program ''ourColor'',
      Uniform4f (uniform_location (programs w) program ''ourColor'')
        (float32 e (redValue (clock e (ticks w)))) (float32 e (redValue (clock e (ticks w))))
        (float32 e 0) (float32 e 1),
      BindVertexArray vao,
      DrawArrays TRIANGLES 0 3]"
    by (simp add: frame_calls_eq)
  from a main_geometry [of e n] c show ?thesis by (intro conjI)
qed

theorem colours_per_draw_witness:
  "ourColor_at env_ok 0 \<and>
   map dr_data (draws (fb (snd (main env_ok (Suc (Suc 0)))))) =
     [Some (triangleBg (\<lambda>x. x)), Some (triangle (\<lambda>x. x)),
      Some (triangleBg (\<lambda>x. x)), Some (triangle (\<lambda>x. x))] \<and>
   map (\<lambda>d. (dr_data d, uniform_value d ''ourColor''))
       (draws (fb (snd (main env_ok (Suc (Suc 0)))))) =
     [(Some (triangleBg (\<lambda>x. x)), Some (1 / 3, 1 / 4, 0, 1)),
      (Some (triangle (\<lambda>x. x)), Some (1 / 2, 1 / 2, 0, 1)),
      (Some (triangleBg (\<lambda>x. x)), Some (2 / 3, 1 / 2, 0, 1)),
      (Some (triangle (\<lambda>x. x)), Some (1, 1, 0, 1))]"
proof -
  have h: "ourColor_at env_ok 0"
    by (simp add: ourColor_at_def)
  have t: "ticks (snd (main env_ok (Suc (Suc 0)))) = Suc (Suc 0)"
    by (simp add: two_frames_of_env_ok frame_counters) (simp add: loop_entry_def)
  show ?thesis
    using h colours_per_draw [of env_ok 3 5 7 world0 "Suc (Suc 0)" 0]
    by (simp add: t redValue_def)
qed

text \<open>
  C2.  For every time value \<open>t\<close>, the colour scalar \<open>sin t / 2 + 0.5\<close> lies in the
  closed interval from 0 to 1; at \<open>0\<close> it is 0.5, at \<open>pi / 2\<close> it is 1, at \<open>pi\<close> it is
  0.5 and at \<open>3 * pi / 2\<close> it is 0.
\<close>

theorem redValue_range:
  "0 \<le> redValue t \<and> redValue t \<le> 1 \<and> redValue 0 = 0.5 \<and> redValue (pi / 2) = 1 \<and>
   redValue pi = 0.5 \<and> redValue (3 * pi / 2) = 0"
proof -
  have "sin (3 * pi / 2) = - 1"
    using sin_3over2_pi by (simp add: field_simps)
  then show ?thesis
    using redValue_bounds [of t] by (simp add: redValue_def)
qed

text \<open>
  C3.  For every source and stage, and a driver whose log for them is shorter than
  \<open>2^31 - 2\<close> characters: \<open>compileShader\<close> returns an error exactly when the compile
  status of the shader it created is \<open>FALSE\<close>, which is exactly when the driver rejects
  the source; the log is fetched exactly in that case; and when the driver rejects one
  of the two sources of the program, \<open>main\<close> panics, whatever the number of iterations
  allowed, having drawn nothing and used no program.
\<close>

theorem compile_error_iff_status_false:
  assumes "length (snd (glsl_compile e shaderType (cstr source))) < 2 ^ 31 - 2"
  shows "((\<exists>h err. fst (compileShader e source shaderType w) = Ok (h, Some err)) \<longleftrightarrow>
            shader_param (shaders (snd (compileShader e source shaderType w)) (names w + 1))
              COMPILE_STATUS = GL_FALSE) \<and>
         (shader_param (shaders (snd (compileShader e source shaderType w)) (names w + 1))
              COMPILE_STATUS = GL_FALSE \<longleftrightarrow>
            \<not> fst (glsl_compile e shaderType (cstr source))) \<and>
         (list_ex is_log_fetch (compile_calls e source shaderType w) \<longleftrightarrow>
            \<not> fst (glsl_compile e shaderType (cstr source))) \<and>
         (\<not> fst (glsl_compile e VERTEX_SHADER (cstr vertexShaderSource)) \<or>
          \<not> fst (glsl_compile e FRAGMENT_SHADER (cstr fragmentShaderSource)) \<longrightarrow>
            (\<exists>m. fst (main e n) = Panicked m) \<and> fb (snd (main e n)) = [] \<and>
            filter uses_program (trace (snd (main e n))) = [])"
proof (cases "fst (glsl_compile e shaderType (cstr source))")
  case True
  show ?thesis
    using True main_aborts [of e n]
    by (simp add: compileShader_ok [OF True] compile_calls_ok [OF True] shader_param_def
          COMPILE_STATUS_def GL_TRUE_def GL_FALSE_def)
next
  case False
  show ?thesis
    using False main_aborts [of e n]
    by (simp add: compileShader_fail [OF False assms] compile_calls_fail [OF False assms]
          shader_param_def COMPILE_STATUS_def GL_TRUE_def GL_FALSE_def)
qed

theorem compile_error_iff_status_false_witness:
  "length (snd (glsl_compile env_bad VERTEX_SHADER (cstr (''x'' @ [NUL])))) < 2 ^ 31 - 2 \<and>
   (\<exists>h err. fst (compileShader env_bad (''x'' @ [NUL]) VERTEX_SHADER world0) = Ok (h, Some err)) \<and>
   list_ex is_log_fetch (compile_calls env_bad (''x'' @ [NUL]) VERTEX_SHADER world0) \<and>
   (\<exists>m. fst (main env_bad (Suc 0)) = Panicked m) \<and> fb (snd (main env_bad (Suc 0))) = []"
proof -
  have h: "length (snd (glsl_compile env_bad VERTEX_SHADER (cstr (''x'' @ [NUL])))) < 2 ^ 31 - 2"
    by simp
  show ?thesis
    using h compile_error_iff_status_false [OF h, of world0 "Suc 0"] by simp
qed

text \<open>
  C4 as stated fails, in both halves.  The error of \<open>compileShader\<close> names no stage:
  the driver of \<open>env_bad\<close> rejects the source \<open>x\<close> in both stages, and the two errors
  are the same value, so nothing read from the error can match the stage in both cases.
  The diagnostic text can be empty: the driver of \<open>env_silent\<close> rejects the source \<open>x\<close>
  and gives no log, and what follows the colon in the error holds no text before its
  first NUL.
\<close>

theorem stage_and_text_counterexample:
  "\<not> (\<exists>stage_of. \<forall>ty \<in> {VERTEX_SHADER, FRAGMENT_SHADER}.
         \<exists>h err. fst (compileShader env_bad (''x'' @ [NUL]) ty world0) = Ok (h, Some err) \<and>
                 stage_of err = ty) \<and>
   \<not> fst (glsl_compile env_silent VERTEX_SHADER (cstr (''x'' @ [NUL]))) \<and>
   \<not> (\<exists>h log. fst (compileShader env_silent (''x'' @ [NUL]) VERTEX_SHADER world0) =
                  Ok (h, Some (''failed to compile '' @ (''x'' @ [NUL]) @ '': '' @ log)) \<and>
                c_string log \<noteq> [])"
proof -
  have "fst (compileShader env_bad (''x'' @ [NUL]) ty world0) =
          Ok (0, Some (''failed to compile x'' @ [NUL] @ '': bad'' @ [NUL, NUL]))" for ty
    by (simp add: compileShader_fail log_buffer_def)
  moreover have "VERTEX_SHADER \<noteq> FRAGMENT_SHADER"
    by (simp add: VERTEX_SHADER_def FRAGMENT_SHADER_def)
  ultimately have a: "\<not> (\<exists>stage_of. \<forall>ty \<in> {VERTEX_SHADER, FRAGMENT_SHADER}.
         \<exists>h err. fst (compileShader env_bad (''x'' @ [NUL]) ty world0) = Ok (h, Some err) \<and>
                 stage_of err = ty)"
    by auto
  have "fst (compileShader env_silent (''x'' @ [NUL]) VERTEX_SHADER world0) =
          Ok (0, Some (''failed to compile '' @ (''x'' @ [NUL]) @ '': '' @ [NUL]))"
    by (simp add: compileShader_fail log_buffer_def)
  then have b: "\<not> (\<exists>h log. fst (compileShader env_silent (''x'' @ [NUL]) VERTEX_SHADER world0) =
                  Ok (h, Some (''failed to compile '' @ (''x'' @ [NUL]) @ '': '' @ log)) \<and>
                c_string log \<noteq> [])"
    by (auto simp add: c_string_def)
  from a b show ?thesis by simp
qed

text \<open>
  C4 as amended.  For every source that the driver rejects, with a log shorter than
  \<open>2^31 - 2\<close> characters, \<open>compileShader\<close> returns the handle 0 and an error whose
  message is \<open>failed to compile\<close>, the source text given as input, a colon, the log of
  the driver and a padding of NULs (one when the log is empty, two otherwise).  The
  diagnostic text of the message, read up to its first NUL, is that of the log of the
  driver, read the same way: it is empty exactly when the log of the driver has no
  text.  The message carries the source, not the stage.
\<close>

theorem compile_error_text:
  assumes "\<not> fst (glsl_compile e shaderType (cstr source))"
    and "length (snd (glsl_compile e shaderType (cstr source))) < 2 ^ 31 - 2"
  shows "fst (compileShader e source shaderType w) =
           Ok (0, Some (''failed to compile '' @ source @ '': '' @
                          snd (glsl_compile e shaderType (cstr source)) @
                          (if snd (glsl_compile e shaderType (cstr source)) = [] then [NUL]
                           else [NUL, NUL]))) \<and>
         c_string (snd (glsl_compile e shaderType (cstr source)) @
                   (if snd (glsl_compile e shaderType (cstr source)) = [] then [NUL]
                    else [NUL, NUL]))
           = c_string (snd (glsl_compile e shaderType (cstr source)))"
  using c_string_padded [of "snd (glsl_compile e shaderType (cstr source))"]
  by (simp add: compileShader_fail [OF assms] log_buffer_def)

theorem compile_error_text_witness:
  "\<not> fst (glsl_compile env_bad FRAGMENT_SHADER (cstr (''x'' @ [NUL]))) \<and>
   length (snd (glsl_compile env_bad FRAGMENT_SHADER (cstr (''x'' @ [NUL])))) < 2 ^ 31 - 2 \<and>
   fst (compileShader env_bad (''x'' @ [NUL]) FRAGMENT_SHADER world0) =
     Ok (0, Some (''failed to compile x'' @ [NUL] @ '': bad'' @ [NUL, NUL])) \<and>
   c_string (''bad'' @ [NUL, NUL]) = ''bad''"
proof -
  have h: "\<not> fst (glsl_compile env_bad FRAGMENT_SHADER (cstr (''x'' @ [NUL])))"
    "length (snd (glsl_compile env_bad FRAGMENT_SHADER (cstr (''x'' @ [NUL])))) < 2 ^ 31 - 2"
    by simp_all
  show ?thesis
    using h compile_error_text [OF h, of world0] by (simp add: c_string_def NUL_def)
qed

text \<open>
  C5 as stated fails.  In the first frame of \<open>env_ok\<close> the calls do not occur in the
  order of the claim: the clear comes before the time sample, not after it, and the
  escape key is read at the start of the frame, not after the poll.
\<close>

theorem claimed_order_counterexample:
  "\<not> in_order [GetTime, Clear (COLOR_BUFFER_BIT OR DEPTH_BUFFER_BIT), UseProgram 3,
                DrawArrays TRIANGLES 0 3, DrawArrays TRIANGLES 0 3, PollEvents,
                GetKey KeyEscape, SwapBuffers]
       (frame_calls env_ok 3 5 7 (loop_entry env_ok)) \<and>
   \<not> in_order [GetTime, Clear (COLOR_BUFFER_BIT OR DEPTH_BUFFER_BIT)]
       (frame_calls env_ok 3 5 7 (loop_entry env_ok)) \<and>
   \<not> in_order [PollEvents, GetKey KeyEscape]
       (frame_calls env_ok 3 5 7 (loop_entry env_ok))"
  by (simp add: frame_calls_eq loop_entry_def)

text \<open>
  C5 as amended.  Each iteration of the render loop makes its calls in this order:
  (1) read the escape key and, if it is reported pressed, request the close;
  (2) clear the colour and depth targets; (3) sample the elapsed time, from which
  \<open>c\<close> is derived; (4) make the program current; (5) the background draw;
  (6) the foreground draw; (7) poll the pending events; (8) swap the buffers.
  Every clear of a run is to \<open>(0.3, 0.3, 0.3, 1)\<close>.
\<close>

theorem frame_order:
  "frame_calls e program vao vao2 w =
     [GetKey KeyEscape] @
     (if keys w KeyEscape = Press then [SetShouldClose True] else []) @
     [Clear (COLOR_BUFFER_BIT OR DEPTH_BUFFER_BIT), GetTime, UseProgram program,
      BindVertexArray vao2, GetUniformLocation program ''ourColor'',
      Uniform4f (uniform_location (programs w) program ''ourColor'')
        (float32 e (redValue (clock e (ticks w)) / 1.5)) (float32 e (redValue (clock e (ticks w)) / 2))
        (float32 e 0) (float32 e 1),
      DrawArrays TRIANGLES 0 3,
      GetUniformLocation program ''ourColor'',
      Uniform4f (uniform_location (programs w) program ''ourColor'')
        (float32 e (redValue (clock e (ticks w)))) (float32 e (redValue (clock e (ticks w))))
        (float32 e 0) (float32 e 1),
      BindVertexArray vao, DrawArrays TRIANGLES 0 3, PollEvents, SwapBuffers] \<and>
   list_all (\<lambda>c. c = (float32 e 0.3, float32 e 0.3, float32 e 0.3, float32 e 1))
     (clears (fb (snd (main e n))))"
  using frame_calls_eq [of e program vao vao2 w] main_clears [of e n] by simp

text \<open>
  C6 as stated fails.  In the run of \<open>env_ok\<close> the poll of the second frame finds the
  escape key pressed.  After that frame, hence after that poll, the key is reported
  pressed and the close flag is still clear: the loop is still running.
\<close>

theorem escape_poll_counterexample:
  "KeyEvent KeyEscape Press \<in>
     set (input env_ok (polls (called ShouldClose
           (frame env_ok 3 5 7 (called ShouldClose (loop_entry env_ok)))))) \<and>
   keys (frame env_ok 3 5 7 (called ShouldClose
           (frame env_ok 3 5 7 (called ShouldClose (loop_entry env_ok))))) KeyEscape = Press \<and>
   \<not> should_close (frame env_ok 3 5 7 (called ShouldClose
           (frame env_ok 3 5 7 (called ShouldClose (loop_entry env_ok)))))"
  by (simp add: frame_should_close frame_counters) (simp add: loop_entry_def KeyEscape_def)

text \<open>
  C6 as amended.  The render loop has two states, running (the close flag is clear) and
  closing (it is set).  A frame ends in closing exactly when it started there, or the
  escape key was reported pressed at its start, or its poll delivers a close request:
  no other key plays a part, and closing is never left.  The loop reads the flag before
  each frame and ends when it is set.  So when the escape key is reported pressed and
  the loop is running, one more frame is run, which sets the flag, and the loop ends
  after it.
\<close>

theorem close_transition:
  "(should_close (frame e program vao vao2 w) \<longleftrightarrow>
      should_close w \<or> keys w KeyEscape = Press \<or> CloseRequest \<in> set (input e (polls w))) \<and>
   render_loop e program vao vao2 (Suc n) w =
     (if should_close w then (True, called ShouldClose w)
      else render_loop e program vao vao2 n (frame e program vao vao2 (called ShouldClose w))) \<and>
   (\<not> should_close w \<and> keys w KeyEscape = Press \<longrightarrow>
      render_loop e program vao vao2 (Suc (Suc n)) w =
        (True, called ShouldClose (frame e program vao vao2 (called ShouldClose w))))"
  by (simp add: frame_should_close render_loop_step del: render_loop.simps)

theorem close_transition_witness:
  "\<not> should_close esc_held \<and> keys esc_held KeyEscape = Press \<and>
   should_close (frame env_ok 3 5 7 esc_held) \<and>
   fst (render_loop env_ok 3 5 7 (Suc (Suc 0)) esc_held) \<and>
   length (draws (fb (snd (render_loop env_ok 3 5 7 (Suc (Suc 0)) esc_held)))) = 2"
proof -
  have h: "\<not> should_close esc_held \<and> keys esc_held KeyEscape = Press"
    by (simp add: esc_held_def loop_entry_def)
  have "length (draws (fb (frame env_ok 3 5 7 (called ShouldClose esc_held)))) = 2"
    by (simp add: frame_eq Let_def esc_held_def loop_entry_def)
  with h show ?thesis
    using close_transition [of env_ok 3 5 7 esc_held 0] by (simp del: render_loop.simps)
qed

text \<open>
  C7.  The code does not do what the claim says.  With a driver that compiles both
  shaders and fails to link them, \<open>main\<close> enters its loop all the same: after one
  frame the program 3 has the link status \<open>FALSE\<close>, and the frame has looked
  \<open>ourColor\<close> up in it twice and has drawn twice.  (The first half of the claim holds:
  see \<open>main_draws\<close>.)
\<close>

theorem link_failure_still_draws:
  "fst (main env_nolink (Suc 0)) = StillLooping \<and>
   map_option pg_link (programs (snd (main env_nolink (Suc 0))) 3) = Some (Some False) \<and>
   filter (\<lambda>c. is_lookup c \<or> is_draw c) (trace (snd (main env_nolink (Suc 0)))) =
     [GetUniformLocation 3 ''ourColor'', DrawArrays TRIANGLES 0 3,
      GetUniformLocation 3 ''ourColor'', DrawArrays TRIANGLES 0 3]"
proof -
  have a: "\<not> should_close (loop_entry env_nolink)"
    "keys (loop_entry env_nolink) = (\<lambda>k. Release)"
    "programs (loop_entry env_nolink) = [3 \<mapsto> linked_program env_nolink]"
    "current_program (loop_entry env_nolink) = 0"
    "filter (\<lambda>c. is_lookup c \<or> is_draw c) (trace (loop_entry env_nolink)) = []"
    by (simp_all add: loop_entry_def setup_calls_def)
  have lp: "linked_program env_nolink =
      \<lparr>pg_shaders = [1, 2], pg_link = Some False, pg_locations = [], pg_uniforms = Map.empty\<rparr>"
    by (simp add: linked_program_def)
  have "main env_nolink (Suc 0) = finish (render_loop env_nolink 3 5 7 (Suc 0) (loop_entry env_nolink))"
    by (rule main_reaches_loop) simp_all
  then have m: "main env_nolink (Suc 0) =
      (StillLooping, frame env_nolink 3 5 7 (called ShouldClose (loop_entry env_nolink)))"
    by (simp add: render_loop_step a finish_alt del: render_loop.simps(2))
  show ?thesis
    unfolding m
    by (simp add: frame_trace a)
       (simp add: frame_eq Let_def a lp use_program_def adjust_def with_uniform_def called_def)
qed

text \<open>
  C8.  Every frame issues exactly two draw calls, whatever the time sample and the
  world it starts in, and adds exactly two draws to the framebuffer.  The two point
  sets have nine floats each.  Every draw of a run covers three vertices, read three
  components at a time from a buffer that holds one of the two point sets, all nine
  floats as they are in the program.
\<close>

theorem two_draws_of_three_vertices:
  "filter is_draw (frame_calls e program vao vao2 w) =
     [DrawArrays TRIANGLES 0 3, DrawArrays TRIANGLES 0 3] \<and>
   length (draws (frame_fb e program vao vao2 w)) = 2 \<and>
   length (triangle (float32 e)) = 9 \<and> length (triangleBg (float32 e)) = 9 \<and>
   list_all (good_draw e) (draws (fb (snd (main e n))))"
  using main_draws [of e n]
  by (simp add: frame_calls_eq frame_fb_def frame_eq Let_def triangle_def triangleBg_def)

text \<open>
  C9.  The program with the location of \<open>ourColor\<close> looked up once after the link and
  reused in every frame ends as the program does, in the same world up to the lookups
  recorded in the trace: the same framebuffer operations, the same state of the
  libraries, the same other calls in the same order.  In every frame the two lookups
  of the program return the same location, the one a lookup before the frame returns.
\<close>

theorem cached_location_equivalent:
  "fst (main_cached e n) = fst (main e n) \<and>
   without_lookups (snd (main_cached e n)) = without_lookups (snd (main e n)) \<and>
   map fst (uniform_writes (frame_calls e program vao vao2 w)) =
     [uniform_location (programs w) program ''ourColor'',
      uniform_location (programs w) program ''ourColor'']"
  using same_main [of e n]
  by (simp add: same_but_lookups_iff uniform_writes_frame)

text \<open>
  C10.  In every frame, each component of the colour written for the background
  triangle (the first write of the frame) is at most the corresponding component of the
  colour written for the foreground triangle (the second write).  The conversion to
  \<open>float32\<close> is assumed monotone, as rounding is.
\<close>

theorem background_not_brighter:
  assumes "mono (float32 e)"
  shows "\<exists>bg fg. map snd (uniform_writes (frame_calls e program vao vao2 w)) = [bg, fg] \<and> le4 bg fg"
proof -
  let ?c = "redValue (clock e (ticks w))"
  have c: "0 \<le> ?c" by (rule redValue_bounds)
  have "?c / 1.5 \<le> ?c" "?c / 2 \<le> ?c" using c by simp_all
  then have le: "float32 e (?c / 1.5) \<le> float32 e ?c" "float32 e (?c / 2) \<le> float32 e ?c"
    by (simp_all add: monoD [OF assms])
  let ?bg = "(float32 e (?c / 1.5), float32 e (?c / 2), float32 e 0, float32 e 1)"
  let ?fg = "(float32 e ?c, float32 e ?c, float32 e 0, float32 e 1)"
  have "map snd (uniform_writes (frame_calls e program vao vao2 w)) = [?bg, ?fg]"
    unfolding uniform_writes_frame by simp
  moreover have "le4 ?bg ?fg"
    unfolding le4_def using le by simp
  ultimately show ?thesis by (intro exI conjI)
qed

theorem background_not_brighter_witness:
  "mono (float32 env_ok) \<and>
   (\<exists>bg fg. map snd (uniform_writes (frame_calls env_ok 3 5 7 world0)) = [bg, fg] \<and> le4 bg fg)"
proof -
  have m: "mono (float32 env_ok)" by (simp add: env_ok_def mono_def)
  show ?thesis using m background_not_brighter [OF m, of 3 5 7 world0] by simp
qed

end
